theory Spec2Isabelle
  imports Complex_Main "HOL-Library.Sublist"
begin

section \<open>CyberRakshak AI: the classification and escalation engine\<close>

text \<open>
  A shallow embedding of \<^verbatim>\<open>src/main.py\<close> (class \<^verbatim>\<open>CyberRakshakAI\<close>) and of the
  message and URL handlers of \<^verbatim>\<open>src/telegram_bot.py\<close>. Each definition names the
  source function or statement it models.
\<close>

subsection \<open>Strings\<close>

text \<open>
  A Python \<^verbatim>\<open>str\<close> is a sequence of Unicode code points: a list of naturals.
  \<open>str\<close> reads a printable ASCII literal; text outside ASCII (the Hindi keywords and
  messages, the bullet of the advice text) is written as its code points.
\<close>

type_synonym pystr = "nat list"

definition str :: "string \<Rightarrow> pystr" where
  "str s = map of_char s"

text \<open>
  \<^verbatim>\<open>s.lower()\<close>: the letters \<^verbatim>\<open>A\<close> to \<^verbatim>\<open>Z\<close> go to \<^verbatim>\<open>a\<close> to \<^verbatim>\<open>z\<close>, the Kelvin sign
  U+212A goes to \<^verbatim>\<open>k\<close>, and U+0130 goes to \<^verbatim>\<open>i\<close> followed by U+0307: these are the code
  points whose lower case has an ASCII character. Every other code point is left as it is,
  as Python leaves the rest of ASCII, Devanagari and every uncased code point. Python maps
  the other cased letters outside ASCII to letters outside ASCII and outside Devanagari;
  the keywords, phrases and indicators of the program are ASCII and Devanagari text, so the
  test whether one of them occurs in the lower-cased message has the same result here.
\<close>

definition lower_cp :: "nat \<Rightarrow> pystr" where
  "lower_cp c =
     (if 65 \<le> c \<and> c \<le> 90 then [c + 32]
      else if c = 0x212A then [0x6B]
      else if c = 0x130 then [0x69, 0x307]
      else [c])"

definition lower :: "pystr \<Rightarrow> pystr" where
  "lower s = concat (map lower_cp s)"

text \<open>\<^verbatim>\<open>s.startswith(k)\<close> and the substring test \<^verbatim>\<open>k in s\<close>.\<close>

fun startswith :: "pystr \<Rightarrow> pystr \<Rightarrow> bool" where
  "startswith s [] = True"
| "startswith [] (k # ks) = False"
| "startswith (c # cs) (k # ks) = (c = k \<and> startswith cs ks)"

fun str_in :: "pystr \<Rightarrow> pystr \<Rightarrow> bool" where
  "str_in k [] = (k = [])"
| "str_in k (c # cs) = (startswith (c # cs) k \<or> str_in k cs)"

text \<open>
  \<^verbatim>\<open>s.strip()\<close>: the white space at both ends is removed. These are the code points for
  which \<^verbatim>\<open>str.isspace\<close> holds.
\<close>

definition is_space :: "nat \<Rightarrow> bool" where
  "is_space c =
     (c \<in> set [0x9, 0xA, 0xB, 0xC, 0xD, 0x1C, 0x1D, 0x1E, 0x1F, 0x20, 0x85, 0xA0, 0x1680,
                0x2000, 0x2001, 0x2002, 0x2003, 0x2004, 0x2005, 0x2006, 0x2007, 0x2008,
                0x2009, 0x200A, 0x2028, 0x2029, 0x202F, 0x205F, 0x3000])"

definition strip :: "pystr \<Rightarrow> pystr" where
  "strip s = rev (dropWhile is_space (rev (dropWhile is_space s)))"

subsection \<open>The pattern catalog\<close>

text \<open>
  \<^verbatim>\<open>self.scam_patterns\<close> (main.py, lines 58 to 102): a dict, iterated in insertion
  order, hence an association list. Each entry carries the \<^verbatim>\<open>keywords\<close> and the
  \<^verbatim>\<open>hindi_keywords\<close> list of its threat type.
\<close>

definition phishing_keywords :: "pystr list" where
  "phishing_keywords =
    [str ''click here'', str ''verify account'', str ''suspended account'',
     str ''urgent action'', str ''confirm identity'', str ''update payment'',
     str ''security alert'', str ''limited time'', str ''claim reward'',
     str ''congratulations'', str ''winner'', str ''prize'', str ''lottery'',
     str ''bank account'', str ''credit card'', str ''debit card'', str ''atm'', str ''pin'']"

definition phishing_hindi_keywords :: "pystr list" where
  "phishing_hindi_keywords =
    [[0x92F, 0x939, 0x93E, 0x901, 0x20, 0x915, 0x94D, 0x932, 0x93F, 0x915, 0x20, 0x915, 0x930, 0x947, 0x902],
     [0x916, 0x93E, 0x924, 0x93E, 0x20, 0x938, 0x924, 0x94D, 0x92F, 0x93E, 0x92A, 0x93F, 0x924, 0x20, 0x915, 0x930, 0x947, 0x902],
     [0x924, 0x941, 0x930, 0x902, 0x924, 0x20, 0x915, 0x93E, 0x930, 0x94D, 0x930, 0x935, 0x93E, 0x908],
     [0x92A, 0x939, 0x91A, 0x93E, 0x928, 0x20, 0x92A, 0x941, 0x937, 0x94D, 0x91F, 0x93F],
     [0x92C, 0x948, 0x902, 0x915, 0x20, 0x916, 0x93E, 0x924, 0x93E],
     [0x90F, 0x91F, 0x940, 0x90F, 0x92E], [0x92A, 0x93F, 0x928], [0x907, 0x928, 0x93E, 0x92E],
     [0x932, 0x949, 0x91F, 0x930, 0x940],
     [0x91C, 0x940, 0x924, 0x928, 0x947, 0x20, 0x935, 0x93E, 0x932, 0x947]]"

definition otp_scam_keywords :: "pystr list" where
  "otp_scam_keywords =
    [str ''otp'', str ''one time password'', str ''verification code'', str ''security code'',
     str ''pin'', str ''passcode'', str ''authentication'', str ''share otp'',
     str ''send otp'', str ''confirm otp'', str ''validate'', str ''activate'']"

definition otp_scam_hindi_keywords :: "pystr list" where
  "otp_scam_hindi_keywords =
    [[0x913, 0x91F, 0x940, 0x92A, 0x940],
     [0x935, 0x928, 0x20, 0x91F, 0x93E, 0x907, 0x92E, 0x20, 0x92A, 0x93E, 0x938, 0x935, 0x930, 0x94D, 0x921],
     [0x938, 0x924, 0x94D, 0x92F, 0x93E, 0x92A, 0x928, 0x20, 0x915, 0x94B, 0x921],
     [0x938, 0x941, 0x930, 0x915, 0x94D, 0x937, 0x93E, 0x20, 0x915, 0x94B, 0x921],
     [0x92A, 0x93F, 0x928], [0x92A, 0x93E, 0x938, 0x915, 0x94B, 0x921],
     [0x938, 0x93E, 0x91D, 0x93E, 0x20, 0x915, 0x930, 0x947, 0x902],
     [0x92D, 0x947, 0x91C, 0x947, 0x902]]"

definition job_fraud_keywords :: "pystr list" where
  "job_fraud_keywords =
    [str ''work from home'', str ''easy money'', str ''part time job'',
     str ''registration fee'', str ''advance payment'', str ''guaranteed income'',
     str ''no experience required'', str ''data entry'', str ''copy paste'',
     str ''survey work'', str ''earn daily'']"

definition job_fraud_hindi_keywords :: "pystr list" where
  "job_fraud_hindi_keywords =
    [[0x918, 0x930, 0x20, 0x938, 0x947, 0x20, 0x915, 0x93E, 0x92E],
     [0x906, 0x938, 0x93E, 0x928, 0x20, 0x92A, 0x948, 0x938, 0x93E],
     [0x92A, 0x93E, 0x930, 0x94D, 0x91F, 0x20, 0x91F, 0x93E, 0x907, 0x92E, 0x20, 0x91C, 0x949, 0x92C],
     [0x930, 0x91C, 0x93F, 0x938, 0x94D, 0x91F, 0x94D, 0x930, 0x947, 0x936, 0x928, 0x20, 0x92B, 0x940, 0x938],
     [0x905, 0x917, 0x94D, 0x930, 0x93F, 0x92E, 0x20, 0x92D, 0x941, 0x917, 0x924, 0x93E, 0x928],
     [0x917, 0x93E, 0x930, 0x902, 0x91F, 0x940, 0x921, 0x20, 0x906, 0x92F],
     [0x921, 0x947, 0x91F, 0x93E, 0x20, 0x90F, 0x902, 0x91F, 0x94D, 0x930, 0x940],
     [0x930, 0x94B, 0x91C, 0x20, 0x915, 0x92E, 0x93E, 0x90F, 0x902]]"

definition fake_link_keywords :: "pystr list" where
  "fake_link_keywords =
    [str ''bit.ly'', str ''tinyurl'', str ''shortened link'', str ''suspicious domain'',
     str ''free download'', str ''install app'', str ''update required'', str ''security patch'']"

definition fake_link_hindi_keywords :: "pystr list" where
  "fake_link_hindi_keywords =
    [[0x92E, 0x941, 0x92B, 0x94D, 0x924, 0x20, 0x921, 0x93E, 0x909, 0x928, 0x932, 0x94B, 0x921],
     [0x910, 0x92A, 0x20, 0x907, 0x902, 0x938, 0x94D, 0x91F, 0x949, 0x932],
     [0x905, 0x92A, 0x921, 0x947, 0x91F, 0x20, 0x91C, 0x930, 0x942, 0x930, 0x940],
     [0x938, 0x941, 0x930, 0x915, 0x94D, 0x937, 0x93E, 0x20, 0x92A, 0x948, 0x91A]]"

definition scam_patterns :: "(string \<times> pystr list \<times> pystr list) list" where
  "scam_patterns =
    [(''phishing'', phishing_keywords, phishing_hindi_keywords),
     (''otp_scam'', otp_scam_keywords, otp_scam_hindi_keywords),
     (''job_fraud'', job_fraud_keywords, job_fraud_hindi_keywords),
     (''fake_link'', fake_link_keywords, fake_link_hindi_keywords)]"

subsection \<open>The local classifier\<close>

datatype language = English | Hindi

text \<open>
  \<^verbatim>\<open>get_threat_explanation\<close> and \<^verbatim>\<open>get_threat_advice\<close> (main.py, lines 273 to 307):
  the two tables, by language and threat type, and the lookups with their defaults.
\<close>

definition explanations_english :: "(string \<times> pystr) list" where
  "explanations_english =
    [(''phishing'',
      str ''This appears to be a phishing attempt - a fake message designed to steal your personal information, passwords, or financial details.''),
     (''otp_scam'',
      str ''This looks like an OTP scam where fraudsters try to trick you into sharing your One-Time Password or verification codes.''),
     (''job_fraud'',
      str ''This seems to be a job fraud scheme offering fake employment opportunities to steal money or personal information.''),
     (''fake_link'',
      str ''This message contains suspicious links that might lead to malicious websites or download harmful software.'')]"

definition explanations_hindi :: "(string \<times> pystr) list" where
  "explanations_hindi =
    [(''phishing'',
      [0x92F, 0x939, 0x20, 0x90F, 0x915, 0x20, 0x92B, 0x93F, 0x936, 0x93F, 0x902, 0x917, 0x20,
      0x92A, 0x94D, 0x930, 0x92F, 0x93E, 0x938, 0x20, 0x932, 0x917, 0x924, 0x93E, 0x20, 0x939,
      0x948, 0x20, 0x2D, 0x20, 0x90F, 0x915, 0x20, 0x928, 0x915, 0x932, 0x940, 0x20, 0x938,
      0x902, 0x926, 0x947, 0x936, 0x20, 0x91C, 0x94B, 0x20, 0x906, 0x92A, 0x915, 0x940, 0x20,
      0x935, 0x94D, 0x92F, 0x915, 0x94D, 0x924, 0x93F, 0x917, 0x924, 0x20, 0x91C, 0x93E, 0x928,
      0x915, 0x93E, 0x930, 0x940, 0x2C, 0x20, 0x92A, 0x93E, 0x938, 0x935, 0x930, 0x94D, 0x921,
      0x20, 0x92F, 0x93E, 0x20, 0x935, 0x93F, 0x924, 0x94D, 0x924, 0x940, 0x92F, 0x20, 0x935,
      0x93F, 0x935, 0x930, 0x923, 0x20, 0x91A, 0x941, 0x930, 0x93E, 0x928, 0x947, 0x20, 0x915,
      0x947, 0x20, 0x932, 0x93F, 0x90F, 0x20, 0x921, 0x93F, 0x91C, 0x93C, 0x93E, 0x907, 0x928,
      0x20, 0x915, 0x93F, 0x92F, 0x93E, 0x20, 0x917, 0x92F, 0x93E, 0x20, 0x939, 0x948, 0x964]),
     (''otp_scam'',
      [0x92F, 0x939, 0x20, 0x90F, 0x915, 0x20, 0x4F, 0x54, 0x50, 0x20, 0x918, 0x94B, 0x91F,
      0x93E, 0x932, 0x93E, 0x20, 0x932, 0x917, 0x924, 0x93E, 0x20, 0x939, 0x948, 0x20, 0x91C,
      0x939, 0x93E, 0x901, 0x20, 0x927, 0x94B, 0x916, 0x947, 0x92C, 0x93E, 0x91C, 0x20, 0x906,
      0x92A, 0x915, 0x94B, 0x20, 0x905, 0x92A, 0x928, 0x93E, 0x20, 0x935, 0x928, 0x2D, 0x91F,
      0x93E, 0x907, 0x92E, 0x20, 0x92A, 0x93E, 0x938, 0x935, 0x930, 0x94D, 0x921, 0x20, 0x92F,
      0x93E, 0x20, 0x938, 0x924, 0x94D, 0x92F, 0x93E, 0x92A, 0x928, 0x20, 0x915, 0x94B, 0x921,
      0x20, 0x938, 0x93E, 0x91D, 0x93E, 0x20, 0x915, 0x930, 0x928, 0x947, 0x20, 0x915, 0x947,
      0x20, 0x932, 0x93F, 0x90F, 0x20, 0x92C, 0x930, 0x917, 0x932, 0x93E, 0x928, 0x947, 0x20,
      0x915, 0x940, 0x20, 0x915, 0x94B, 0x936, 0x93F, 0x936, 0x20, 0x915, 0x930, 0x924, 0x947,
      0x20, 0x939, 0x948, 0x902, 0x964]),
     (''job_fraud'',
      [0x92F, 0x939, 0x20, 0x90F, 0x915, 0x20, 0x928, 0x94C, 0x915, 0x930, 0x940, 0x20, 0x927,
      0x94B, 0x916, 0x93E, 0x927, 0x921, 0x93C, 0x940, 0x20, 0x92F, 0x94B, 0x91C, 0x928, 0x93E,
      0x20, 0x932, 0x917, 0x924, 0x940, 0x20, 0x939, 0x948, 0x20, 0x91C, 0x94B, 0x20, 0x92A,
      0x948, 0x938, 0x947, 0x20, 0x92F, 0x93E, 0x20, 0x935, 0x94D, 0x92F, 0x915, 0x94D, 0x924,
      0x93F, 0x917, 0x924, 0x20, 0x91C, 0x93E, 0x928, 0x915, 0x93E, 0x930, 0x940, 0x20, 0x91A,
      0x941, 0x930, 0x93E, 0x928, 0x947, 0x20, 0x915, 0x947, 0x20, 0x932, 0x93F, 0x90F, 0x20,
      0x928, 0x915, 0x932, 0x940, 0x20, 0x930, 0x94B, 0x91C, 0x917, 0x93E, 0x930, 0x20, 0x915,
      0x947, 0x20, 0x905, 0x935, 0x938, 0x930, 0x20, 0x92A, 0x94D, 0x930, 0x926, 0x93E, 0x928,
      0x20, 0x915, 0x930, 0x924, 0x940, 0x20, 0x939, 0x948, 0x964]),
     (''fake_link'',
      [0x907, 0x938, 0x20, 0x938, 0x902, 0x926, 0x947, 0x936, 0x20, 0x92E, 0x947, 0x902, 0x20,
      0x938, 0x902, 0x926, 0x93F, 0x917, 0x94D, 0x927, 0x20, 0x932, 0x93F, 0x902, 0x915, 0x20,
      0x939, 0x948, 0x902, 0x20, 0x91C, 0x94B, 0x20, 0x926, 0x941, 0x930, 0x94D, 0x92D, 0x93E,
      0x935, 0x928, 0x93E, 0x92A, 0x942, 0x930, 0x94D, 0x923, 0x20, 0x935, 0x947, 0x92C, 0x938,
      0x93E, 0x907, 0x91F, 0x94B, 0x902, 0x20, 0x92A, 0x930, 0x20, 0x932, 0x947, 0x20, 0x91C,
      0x93E, 0x20, 0x938, 0x915, 0x924, 0x947, 0x20, 0x939, 0x948, 0x902, 0x20, 0x92F, 0x93E,
      0x20, 0x939, 0x93E, 0x928, 0x93F, 0x915, 0x93E, 0x930, 0x915, 0x20, 0x938, 0x949, 0x92B,
      0x94D, 0x91F, 0x935, 0x947, 0x92F, 0x930, 0x20, 0x921, 0x93E, 0x909, 0x928, 0x932, 0x94B,
      0x921, 0x20, 0x915, 0x930, 0x20, 0x938, 0x915, 0x924, 0x947, 0x20, 0x939, 0x948, 0x902,
      0x964])]"

definition advice_english :: "(string \<times> pystr) list" where
  "advice_english =
    [(''phishing'',
      [0x2022] @ str '' Do NOT click any links or download attachments'' @ [0xA, 0x2022] @
      str '' Do NOT provide personal information'' @ [0xA, 0x2022] @
      str '' Verify with the official organization directly'' @ [0xA, 0x2022] @
      str '' Report to cybercrime.gov.in''),
     (''otp_scam'',
      [0x2022] @ str '' NEVER share OTP, PIN, or verification codes with anyone'' @
      [0xA, 0x2022] @ str '' Banks/companies never ask for OTP over phone/message'' @
      [0xA, 0x2022] @ str '' If you shared OTP, immediately contact your bank'' @
      [0xA, 0x2022] @ str '' Block your cards if compromised''),
     (''job_fraud'',
      [0x2022] @ str '' Do NOT pay any registration or processing fees'' @ [0xA, 0x2022] @
      str '' Legitimate companies don't ask for upfront payments'' @ [0xA, 0x2022] @
      str '' Verify company details independently'' @ [0xA, 0x2022] @
      str '' Report to local cyber police''),
     (''fake_link'',
      [0x2022] @ str '' Do NOT click on suspicious links'' @ [0xA, 0x2022] @
      str '' Type URLs manually in browser'' @ [0xA, 0x2022] @
      str '' Use antivirus software'' @ [0xA, 0x2022] @ str '' Report phishing attempts'')]"

definition advice_hindi :: "(string \<times> pystr) list" where
  "advice_hindi =
    [(''phishing'',
      [0x2022, 0x20, 0x915, 0x93F, 0x938, 0x940, 0x20, 0x92D, 0x940, 0x20, 0x932, 0x93F, 0x902,
      0x915, 0x20, 0x92A, 0x930, 0x20, 0x915, 0x94D, 0x932, 0x93F, 0x915, 0x20, 0x928, 0x20,
      0x915, 0x930, 0x947, 0x902, 0x20, 0x92F, 0x93E, 0x20, 0x905, 0x91F, 0x948, 0x91A, 0x92E,
      0x947, 0x902, 0x91F, 0x20, 0x921, 0x93E, 0x909, 0x928, 0x932, 0x94B, 0x921, 0x20, 0x928,
      0x20, 0x915, 0x930, 0x947, 0x902, 0xA, 0x2022, 0x20, 0x935, 0x94D, 0x92F, 0x915, 0x94D,
      0x924, 0x93F, 0x917, 0x924, 0x20, 0x91C, 0x93E, 0x928, 0x915, 0x93E, 0x930, 0x940, 0x20,
      0x92A, 0x94D, 0x930, 0x926, 0x93E, 0x928, 0x20, 0x928, 0x20, 0x915, 0x930, 0x947, 0x902,
      0xA, 0x2022, 0x20, 0x906, 0x927, 0x93F, 0x915, 0x93E, 0x930, 0x93F, 0x915, 0x20, 0x938,
      0x902, 0x917, 0x920, 0x928, 0x20, 0x938, 0x947, 0x20, 0x938, 0x940, 0x927, 0x947, 0x20,
      0x938, 0x924, 0x94D, 0x92F, 0x93E, 0x92A, 0x93F, 0x924, 0x20, 0x915, 0x930, 0x947, 0x902,
      0xA, 0x2022, 0x20, 0x63, 0x79, 0x62, 0x65, 0x72, 0x63, 0x72, 0x69, 0x6D, 0x65, 0x2E,
      0x67, 0x6F, 0x76, 0x2E, 0x69, 0x6E, 0x20, 0x92A, 0x930, 0x20, 0x930, 0x93F, 0x92A, 0x94B,
      0x930, 0x94D, 0x91F, 0x20, 0x915, 0x930, 0x947, 0x902]),
     (''otp_scam'',
      [0x2022, 0x20, 0x915, 0x92D, 0x940, 0x20, 0x92D, 0x940, 0x20, 0x4F, 0x54, 0x50, 0x2C,
      0x20, 0x50, 0x49, 0x4E, 0x2C, 0x20, 0x92F, 0x93E, 0x20, 0x938, 0x924, 0x94D, 0x92F,
      0x93E, 0x92A, 0x928, 0x20, 0x915, 0x94B, 0x921, 0x20, 0x915, 0x93F, 0x938, 0x940, 0x20,
      0x915, 0x947, 0x20, 0x938, 0x93E, 0x925, 0x20, 0x938, 0x93E, 0x91D, 0x93E, 0x20, 0x928,
      0x20, 0x915, 0x930, 0x947, 0x902, 0xA, 0x2022, 0x20, 0x92C, 0x948, 0x902, 0x915, 0x2F,
      0x915, 0x902, 0x92A, 0x928, 0x93F, 0x92F, 0x93E, 0x902, 0x20, 0x92B, 0x94B, 0x928, 0x2F,
      0x938, 0x902, 0x926, 0x947, 0x936, 0x20, 0x92A, 0x930, 0x20, 0x4F, 0x54, 0x50, 0x20,
      0x928, 0x939, 0x940, 0x902, 0x20, 0x92E, 0x93E, 0x902, 0x917, 0x924, 0x940, 0xA, 0x2022,
      0x20, 0x92F, 0x926, 0x93F, 0x20, 0x4F, 0x54, 0x50, 0x20, 0x938, 0x93E, 0x91D, 0x93E,
      0x20, 0x915, 0x93F, 0x92F, 0x93E, 0x20, 0x939, 0x948, 0x2C, 0x20, 0x924, 0x941, 0x930,
      0x902, 0x924, 0x20, 0x905, 0x92A, 0x928, 0x947, 0x20, 0x92C, 0x948, 0x902, 0x915, 0x20,
      0x938, 0x947, 0x20, 0x938, 0x902, 0x92A, 0x930, 0x94D, 0x915, 0x20, 0x915, 0x930, 0x947,
      0x902, 0xA, 0x2022, 0x20, 0x938, 0x92E, 0x91D, 0x94C, 0x924, 0x93E, 0x20, 0x939, 0x94B,
      0x928, 0x947, 0x20, 0x92A, 0x930, 0x20, 0x915, 0x93E, 0x930, 0x94D, 0x921, 0x20, 0x92C,
      0x94D, 0x932, 0x949, 0x915, 0x20, 0x915, 0x930, 0x947, 0x902]),
     (''job_fraud'',
      [0x2022, 0x20, 0x915, 0x94B, 0x908, 0x20, 0x930, 0x91C, 0x93F, 0x938, 0x94D, 0x91F,
      0x94D, 0x930, 0x947, 0x936, 0x928, 0x20, 0x92F, 0x93E, 0x20, 0x92A, 0x94D, 0x930, 0x94B,
      0x938, 0x947, 0x938, 0x93F, 0x902, 0x917, 0x20, 0x92B, 0x940, 0x938, 0x20, 0x928, 0x20,
      0x926, 0x947, 0x902, 0xA, 0x2022, 0x20, 0x935, 0x948, 0x927, 0x20, 0x915, 0x902, 0x92A,
      0x928, 0x93F, 0x92F, 0x93E, 0x902, 0x20, 0x905, 0x917, 0x94D, 0x930, 0x93F, 0x92E, 0x20,
      0x92D, 0x941, 0x917, 0x924, 0x93E, 0x928, 0x20, 0x928, 0x939, 0x940, 0x902, 0x20, 0x92E,
      0x93E, 0x902, 0x917, 0x924, 0x940, 0xA, 0x2022, 0x20, 0x915, 0x902, 0x92A, 0x928, 0x940,
      0x20, 0x915, 0x947, 0x20, 0x935, 0x93F, 0x935, 0x930, 0x923, 0x20, 0x938, 0x94D, 0x935,
      0x924, 0x902, 0x924, 0x94D, 0x930, 0x20, 0x930, 0x942, 0x92A, 0x20, 0x938, 0x947, 0x20,
      0x938, 0x924, 0x94D, 0x92F, 0x93E, 0x92A, 0x93F, 0x924, 0x20, 0x915, 0x930, 0x947, 0x902,
      0xA, 0x2022, 0x20, 0x938, 0x94D, 0x925, 0x93E, 0x928, 0x940, 0x92F, 0x20, 0x938, 0x93E,
      0x907, 0x92C, 0x930, 0x20, 0x92A, 0x941, 0x932, 0x93F, 0x938, 0x20, 0x915, 0x94B, 0x20,
      0x930, 0x93F, 0x92A, 0x94B, 0x930, 0x94D, 0x91F, 0x20, 0x915, 0x930, 0x947, 0x902]),
     (''fake_link'',
      [0x2022, 0x20, 0x938, 0x902, 0x926, 0x93F, 0x917, 0x94D, 0x927, 0x20, 0x932, 0x93F,
      0x902, 0x915, 0x20, 0x92A, 0x930, 0x20, 0x915, 0x94D, 0x932, 0x93F, 0x915, 0x20, 0x928,
      0x20, 0x915, 0x930, 0x947, 0x902, 0xA, 0x2022, 0x20, 0x92C, 0x94D, 0x930, 0x93E, 0x909,
      0x91C, 0x93C, 0x930, 0x20, 0x92E, 0x947, 0x902, 0x20, 0x55, 0x52, 0x4C, 0x20, 0x92E,
      0x948, 0x928, 0x94D, 0x92F, 0x941, 0x905, 0x932, 0x20, 0x930, 0x942, 0x92A, 0x20, 0x938,
      0x947, 0x20, 0x91F, 0x93E, 0x907, 0x92A, 0x20, 0x915, 0x930, 0x947, 0x902, 0xA, 0x2022,
      0x20, 0x90F, 0x902, 0x91F, 0x940, 0x935, 0x93E, 0x92F, 0x930, 0x938, 0x20, 0x938, 0x949,
      0x92B, 0x94D, 0x91F, 0x935, 0x947, 0x92F, 0x930, 0x20, 0x915, 0x93E, 0x20, 0x909, 0x92A,
      0x92F, 0x94B, 0x917, 0x20, 0x915, 0x930, 0x947, 0x902, 0xA, 0x2022, 0x20, 0x92B, 0x93F,
      0x936, 0x93F, 0x902, 0x917, 0x20, 0x92A, 0x94D, 0x930, 0x92F, 0x93E, 0x938, 0x94B, 0x902,
      0x20, 0x915, 0x940, 0x20, 0x930, 0x93F, 0x92A, 0x94B, 0x930, 0x94D, 0x91F, 0x20, 0x915,
      0x930, 0x947, 0x902])]"

definition explanations :: "language \<Rightarrow> (string \<times> pystr) list" where
  "explanations l = (case l of English \<Rightarrow> explanations_english | Hindi \<Rightarrow> explanations_hindi)"

definition get_threat_explanation :: "language \<Rightarrow> string \<Rightarrow> pystr" where
  "get_threat_explanation current_language threat_type =
     (case map_of (explanations current_language) threat_type of
        Some e \<Rightarrow> e
      | None \<Rightarrow> str ''Unknown threat type detected.'')"

definition advice_table :: "language \<Rightarrow> (string \<times> pystr) list" where
  "advice_table l = (case l of English \<Rightarrow> advice_english | Hindi \<Rightarrow> advice_hindi)"

definition get_threat_advice :: "language \<Rightarrow> string \<Rightarrow> pystr" where
  "get_threat_advice current_language threat_type =
     (case map_of (advice_table current_language) threat_type of
        Some a \<Rightarrow> a
      | None \<Rightarrow> str ''Stay vigilant and report suspicious activities.'')"

text \<open>
  The body of the loop over \<^verbatim>\<open>self.scam_patterns.items()\<close> (main.py, lines 233 to 248):
  the two counts of one category, and the confidence of a candidate.
\<close>

definition english_matches :: "pystr \<Rightarrow> pystr list \<Rightarrow> nat" where
  "english_matches message keywords =
     length (filter (\<lambda>keyword. str_in (lower keyword) (lower message)) keywords)"

definition hindi_matches :: "pystr \<Rightarrow> pystr list \<Rightarrow> nat" where
  "hindi_matches message hindi_keywords =
     length (filter (\<lambda>keyword. str_in keyword message) hindi_keywords)"

definition total_matches :: "pystr \<Rightarrow> pystr list \<times> pystr list \<Rightarrow> nat" where
  "total_matches message patterns =
     english_matches message (fst patterns) + hindi_matches message (snd patterns)"

definition total_keywords :: "pystr list \<times> pystr list \<Rightarrow> nat" where
  "total_keywords patterns = length (fst patterns) + length (snd patterns)"

definition candidate_confidence :: "nat \<Rightarrow> nat \<Rightarrow> rat" where
  "candidate_confidence m k = min (of_nat m / of_nat k * 2) 1"

text \<open>The loop itself: \<^verbatim>\<open>threats_found\<close> after the catalog has been scanned.\<close>

fun threats_found :: "pystr \<Rightarrow> (string \<times> pystr list \<times> pystr list) list
    \<Rightarrow> (string \<times> rat \<times> nat) list" where
  "threats_found message [] = []"
| "threats_found message ((threat_type, patterns) # rest) =
     (if total_matches message patterns > 0
      then (threat_type,
            candidate_confidence (total_matches message patterns) (total_keywords patterns),
            total_matches message patterns) # threats_found message rest
      else threats_found message rest)"

text \<open>
  \<^verbatim>\<open>max(threats_found, key=lambda x: x[1])\<close>: Python's \<^verbatim>\<open>max\<close> keeps the item it holds
  unless a later one has a strictly greater key.
\<close>

fun py_max :: "(string \<times> rat \<times> nat) \<Rightarrow> (string \<times> rat \<times> nat) list
    \<Rightarrow> (string \<times> rat \<times> nat)" where
  "py_max best [] = best"
| "py_max best (x # xs) = py_max (if fst (snd x) > fst (snd best) then x else best) xs"

text \<open>
  The dict that \<^verbatim>\<open>analyze_message_local\<close> returns. \<^verbatim>\<open>confidence\<close> is a Python float
  computed as \<^verbatim>\<open>total_matches / total_keywords * 2\<close> from two integers of at most 28: the
  quotient is correctly rounded and the doubling is exact, so two such values compare
  (with each other, with \<^verbatim>\<open>0.0\<close> and with \<^verbatim>\<open>1.0\<close>) as the exact quotients do. The model
  keeps the exact rational.
\<close>

record verdict =
  is_threat :: bool
  threat_type :: string
  confidence :: rat
  matches :: nat
  explanation :: pystr
  advice :: pystr

text \<open>\<^verbatim>\<open>analyze_message_local\<close> (main.py, lines 227 to 271).\<close>

definition analyze_message_local :: "language \<Rightarrow> pystr \<Rightarrow> verdict" where
  "analyze_message_local current_language message =
     (case threats_found message scam_patterns of
        first # others \<Rightarrow>
          (case py_max first others of
             (best_type, best_confidence, best_matches) \<Rightarrow>
               \<lparr>is_threat = True,
                threat_type = best_type,
                confidence = best_confidence,
                matches = best_matches,
                explanation = get_threat_explanation current_language best_type,
                advice = get_threat_advice current_language best_type\<rparr>)
      | [] \<Rightarrow>
          \<lparr>is_threat = False,
           threat_type = ''none'',
           confidence = 0,
           matches = 0,
           explanation = str ''No obvious threat patterns detected.'',
           advice = str ''Message appears safe, but always remain cautious online.''\<rparr>)"

subsection \<open>Python values\<close>

text \<open>
  What \<^verbatim>\<open>json.loads\<close> can return: \<^verbatim>\<open>None\<close>, a bool, an int, a float (finite, or one of
  \<^verbatim>\<open>nan\<close>, \<^verbatim>\<open>inf\<close>, \<^verbatim>\<open>-inf\<close>), a str, a list, or a dict with str keys (its items, in
  order, each key once).
\<close>

datatype pyval =
    PNone
  | PBool bool
  | PInt int
  | PFloat rat
  | PNonFinite
  | PStr pystr
  | PList "pyval list"
  | PDict "(pystr \<times> pyval) list"

datatype py_error =
  KeyError | TypeError | IndexError | AttributeError | ValueError | OverflowError

text \<open>The truth value Python gives an object in \<^verbatim>\<open>if x:\<close> and \<^verbatim>\<open>not x\<close>.\<close>

fun truthy :: "pyval \<Rightarrow> bool" where
  "truthy PNone = False"
| "truthy (PBool b) = b"
| "truthy (PInt i) = (i \<noteq> 0)"
| "truthy (PFloat r) = (r \<noteq> 0)"
| "truthy PNonFinite = True"
| "truthy (PStr s) = (s \<noteq> [])"
| "truthy (PList xs) = (xs \<noteq> [])"
| "truthy (PDict kvs) = (kvs \<noteq> [])"

text \<open>\<^verbatim>\<open>x[key]\<close> with a str key: only a dict can be subscripted by one.\<close>

fun subscript :: "pyval \<Rightarrow> pystr \<Rightarrow> py_error + pyval" where
  "subscript (PDict kvs) key = (case map_of kvs key of None \<Rightarrow> Inl KeyError | Some v \<Rightarrow> Inr v)"
| "subscript other key = Inl TypeError"

text \<open>\<^verbatim>\<open>x[0]\<close>.\<close>

fun first_item :: "pyval \<Rightarrow> py_error + pyval" where
  "first_item (PList (x # xs)) = Inr x"
| "first_item (PList []) = Inl IndexError"
| "first_item (PStr (c # cs)) = Inr (PStr [c])"
| "first_item (PStr []) = Inl IndexError"
| "first_item (PDict kvs) = Inl KeyError"
| "first_item other = Inl TypeError"

subsection \<open>The remote classifier adapter\<close>

text \<open>
  The outcome of \<^verbatim>\<open>self.gemini_client.models.generate_content(...)\<close>: it raises, or it
  gives a response whose \<^verbatim>\<open>text\<close> is \<^verbatim>\<open>None\<close> or a string. A configured client is a
  function from the number of requests made so far and the message (spliced into the
  fixed prompt) to that outcome; \<^verbatim>\<open>self.gemini_client\<close> is \<^verbatim>\<open>None\<close> when no key was
  configured. \<^verbatim>\<open>json.loads\<close> is a parameter: \<open>None\<close> when it raises.
\<close>

datatype gemini_reply = Raises | Reply "pystr option"

type_synonym gemini_service = "nat \<Rightarrow> pystr \<Rightarrow> gemini_reply"

type_synonym json_parser = "pystr \<Rightarrow> pyval option"

record cyber_rakshak_ai =
  current_language :: language
  gemini_client :: "gemini_service option"
  safe_browsing_api_key :: pystr

text \<open>
  \<^verbatim>\<open>analyze_message_with_gemini\<close> (main.py, lines 188 to 225). The second component of
  the result is the number of requests made to the service after the call.
\<close>

definition analyze_message_with_gemini ::
    "json_parser \<Rightarrow> cyber_rakshak_ai \<Rightarrow> nat \<Rightarrow> pystr \<Rightarrow> pyval \<times> nat" where
  "analyze_message_with_gemini json_loads self calls message =
     (case gemini_client self of
        None \<Rightarrow> (PNone, calls)
      | Some generate_content \<Rightarrow>
          (case generate_content calls message of
             Raises \<Rightarrow> (PNone, Suc calls)
           | Reply None \<Rightarrow> (PNone, Suc calls)
           | Reply (Some text) \<Rightarrow>
               (if text \<noteq> []
                then (case json_loads text of
                        Some parsed \<Rightarrow> (parsed, Suc calls)
                      | None \<Rightarrow> (PNone, Suc calls))
                else (PNone, Suc calls))))"

subsection \<open>The classification coordinator\<close>

text \<open>
  The analysis result and the path that produced it. Lines 322 to 330 of main.py
  (\<^verbatim>\<open>analyze_message\<close>), and lines 170 to 179 of telegram_bot.py: Gemini first when a
  client is configured, the local classifier when the result is not true. The handler of
  the bot for an exception raised afterwards is part of \<open>bot_analyze_message\<close> below.
\<close>

datatype analysis = FromGemini pyval | FromLocal verdict

definition classify :: "json_parser \<Rightarrow> cyber_rakshak_ai \<Rightarrow> nat \<Rightarrow> pystr \<Rightarrow> analysis \<times> nat" where
  "classify json_loads self calls message =
     (case (case gemini_client self of
              None \<Rightarrow> (PNone, calls)
            | Some c \<Rightarrow> analyze_message_with_gemini json_loads self calls message) of
        (result, calls') \<Rightarrow>
          (if truthy result
           then (FromGemini result, calls')
           else (FromLocal (analyze_message_local (current_language self) message), calls')))"

subsection \<open>Escalation and the front ends\<close>

text \<open>
  \<^verbatim>\<open>any(keyword in message.lower() for keyword in emergency_keywords)\<close>
  (main.py, line 344; telegram_bot.py, line 209).
\<close>

definition emergency_keywords :: "pystr list" where
  "emergency_keywords =
    [str ''shared otp'', str ''gave otp'', str ''sent money'', str ''got scammed'',
     [0x939, 0x94B, 0x20, 0x917, 0x92F, 0x93E], [0x926, 0x93F, 0x92F, 0x93E],
     [0x92D, 0x947, 0x91C, 0x20, 0x926, 0x93F, 0x92F, 0x93E], [0x927, 0x94B, 0x916, 0x93E]]"

definition emergency_check :: "pystr \<Rightarrow> bool" where
  "emergency_check message = list_ex (\<lambda>keyword. str_in keyword (lower message)) emergency_keywords"

text \<open>
  What the two front ends show for a message: nothing for an empty one, the safe note, or
  the threat, with or without the escalation (the call of \<^verbatim>\<open>emergency_response\<close> in
  main.py, the emergency button in the bot). Printing to the terminal and the calls of the
  Telegram API are taken to succeed; an exception comes from the verdict only.
\<close>

datatype shown = NoMessageEntered | SafeMessage | ThreatDetected bool

text \<open>
  The verdict of the local classifier has every field, with the type the statements below
  need: it is shown without an exception (main.py, lines 333 to 348; telegram_bot.py, lines
  199 to 222).
\<close>

definition show_local :: "verdict \<Rightarrow> pystr \<Rightarrow> shown" where
  "show_local v message =
     (if is_threat v then ThreatDetected (emergency_check message) else SafeMessage)"

text \<open>
  \<^verbatim>\<open>f"{x:.1%}"\<close>: a float and an int (a bool is one) are formatted, an int after its
  conversion to a float, which overflows from \<open>2 ^ 1024 - 2 ^ 970\<close> on; \<^verbatim>\<open>None\<close>, a list
  and a dict raise TypeError, a str raises ValueError.
\<close>

fun format_percent :: "pyval \<Rightarrow> py_error option" where
  "format_percent PNone = Some TypeError"
| "format_percent (PBool b) = None"
| "format_percent (PInt i) = (if \<bar>i\<bar> < 2 ^ 1024 - 2 ^ 970 then None else Some OverflowError)"
| "format_percent (PFloat r) = None"
| "format_percent PNonFinite = None"
| "format_percent (PStr s) = Some ValueError"
| "format_percent (PList xs) = Some TypeError"
| "format_percent (PDict kvs) = Some TypeError"

text \<open>\<^verbatim>\<open>x.upper()\<close> and \<^verbatim>\<open>textwrap.fill(x, width=70)\<close>: \<open>x\<close> has to be a str.\<close>

fun need_str :: "pyval \<Rightarrow> py_error option" where
  "need_str (PStr s) = None"
| "need_str other = Some AttributeError"

text \<open>
  The statements that print a threat in main.py (lines 334 to 339), for a dict of Gemini:
  \<^verbatim>\<open>result['threat_type'].upper()\<close>, \<^verbatim>\<open>result['confidence']:.1%\<close>,
  \<^verbatim>\<open>textwrap.fill(result['explanation'], width=70)\<close> and \<^verbatim>\<open>result['advice']\<close>, in this order.
  \<open>None\<close> when they run through, the first exception otherwise.
\<close>

definition print_threat :: "pyval \<Rightarrow> py_error option" where
  "print_threat result =
     (case subscript result (str ''threat_type'') of
        Inl e \<Rightarrow> Some e
      | Inr t \<Rightarrow>
          (case need_str t of
             Some e \<Rightarrow> Some e
           | None \<Rightarrow>
               (case subscript result (str ''confidence'') of
                  Inl e \<Rightarrow> Some e
                | Inr c \<Rightarrow>
                    (case format_percent c of
                       Some e \<Rightarrow> Some e
                     | None \<Rightarrow>
                         (case subscript result (str ''explanation'') of
                            Inl e \<Rightarrow> Some e
                          | Inr x \<Rightarrow>
                              (case need_str x of
                                 Some e \<Rightarrow> Some e
                               | None \<Rightarrow>
                                   (case subscript result (str ''advice'') of
                                      Inl e \<Rightarrow> Some e
                                    | Inr a \<Rightarrow> None)))))))"

text \<open>The display of \<^verbatim>\<open>analyze_message\<close> (main.py, lines 333 to 348).\<close>

definition show_result :: "analysis \<Rightarrow> pystr \<Rightarrow> py_error + shown" where
  "show_result result message =
     (case result of
        FromLocal v \<Rightarrow> Inr (show_local v message)
      | FromGemini d \<Rightarrow>
          (case subscript d (str ''is_threat'') of
             Inl e \<Rightarrow> Inl e
           | Inr flag \<Rightarrow>
               (if truthy flag
                then (case print_threat d of
                        Some e \<Rightarrow> Inl e
                      | None \<Rightarrow> Inr (ThreatDetected (emergency_check message)))
                else (case subscript d (str ''explanation'') of
                        Inl e \<Rightarrow> Inl e
                      | Inr note \<Rightarrow> Inr SafeMessage))))"

text \<open>
  \<^verbatim>\<open>analyze_message\<close> of main.py (lines 309 to 350); \<open>line\<close> is what \<^verbatim>\<open>input\<close> returns.
\<close>

definition analyze_message ::
    "json_parser \<Rightarrow> cyber_rakshak_ai \<Rightarrow> nat \<Rightarrow> pystr \<Rightarrow> (py_error + shown) \<times> nat" where
  "analyze_message json_loads self calls line =
     (if strip line = [] then (Inr NoMessageEntered, calls)
      else (case classify json_loads self calls (strip line) of
              (result, calls') \<Rightarrow> (show_result result (strip line), calls')))"

text \<open>
  The statements that build the text of a threat in the bot (telegram_bot.py, lines 201 to
  204): as in main.py, but the explanation is put into the text as it is.
\<close>

definition threat_text :: "pyval \<Rightarrow> py_error option" where
  "threat_text result =
     (case subscript result (str ''threat_type'') of
        Inl e \<Rightarrow> Some e
      | Inr t \<Rightarrow>
          (case need_str t of
             Some e \<Rightarrow> Some e
           | None \<Rightarrow>
               (case subscript result (str ''confidence'') of
                  Inl e \<Rightarrow> Some e
                | Inr c \<Rightarrow>
                    (case format_percent c of
                       Some e \<Rightarrow> Some e
                     | None \<Rightarrow>
                         (case subscript result (str ''explanation'') of
                            Inl e \<Rightarrow> Some e
                          | Inr x \<Rightarrow>
                              (case subscript result (str ''advice'') of
                                 Inl e \<Rightarrow> Some e
                               | Inr a \<Rightarrow> None))))))"

text \<open>\<^verbatim>\<open>send_analysis_result\<close> (telegram_bot.py, lines 197 to 222).\<close>

definition send_analysis_result :: "analysis \<Rightarrow> pystr \<Rightarrow> py_error + shown" where
  "send_analysis_result result original_message =
     (case result of
        FromLocal v \<Rightarrow> Inr (show_local v original_message)
      | FromGemini d \<Rightarrow>
          (case subscript d (str ''is_threat'') of
             Inl e \<Rightarrow> Inl e
           | Inr flag \<Rightarrow>
               (if truthy flag
                then (case threat_text d of
                        Some e \<Rightarrow> Inl e
                      | None \<Rightarrow> Inr (ThreatDetected (emergency_check original_message)))
                else (case subscript d (str ''explanation'') of
                        Inl e \<Rightarrow> Inl e
                      | Inr note \<Rightarrow> Inr SafeMessage))))"

text \<open>
  \<^verbatim>\<open>analyze_message\<close> of the bot (telegram_bot.py, lines 158 to 195): the same waterfall
  inside \<^verbatim>\<open>try\<close>, and the handler of \<^verbatim>\<open>except Exception\<close> (lines 185 to 192), which runs
  the local classifier and sends its verdict. The result is the verdict that was sent,
  what was shown, and the number of requests made to Gemini.
\<close>

definition bot_analyze_message ::
    "json_parser \<Rightarrow> cyber_rakshak_ai \<Rightarrow> nat \<Rightarrow> pystr \<Rightarrow> (analysis \<times> shown) \<times> nat" where
  "bot_analyze_message json_loads self calls message_text =
     (case classify json_loads self calls message_text of
        (result, calls') \<Rightarrow>
          (case send_analysis_result result message_text of
             Inr s \<Rightarrow> ((result, s), calls')
           | Inl e \<Rightarrow>
               ((FromLocal (analyze_message_local (current_language self) message_text),
                 show_local (analyze_message_local (current_language self) message_text)
                   message_text),
                calls')))"

subsection \<open>The URL check\<close>

text \<open>
  The outcome of \<^verbatim>\<open>requests.post(...)\<close>: it raises, or it gives a response with a
  status code and a body; \<^verbatim>\<open>response.json()\<close> gives the parsed body, \<open>None\<close> when
  it raises.
\<close>

datatype http_reply = PostRaises | HttpResponse nat "pyval option"

text \<open>
  The two dicts \<^verbatim>\<open>check_url_with_safe_browsing\<close> returns: \<^verbatim>\<open>is_safe\<close> false with the
  threat type of the first match, or \<^verbatim>\<open>is_safe\<close> true.
\<close>

datatype safe_browsing_result = Unsafe pyval | Safe

text \<open>
  \<^verbatim>\<open>"matches" in result and result["matches"]\<close>, then
  \<^verbatim>\<open>result["matches"][0]["threatType"]\<close> (main.py, lines 419 to 432).
\<close>

fun threat_match :: "pyval \<Rightarrow> py_error + safe_browsing_result" where
  "threat_match (PDict kvs) =
     (case map_of kvs (str ''matches'') of
        None \<Rightarrow> Inr Safe
      | Some m \<Rightarrow>
          (if truthy m
           then (case first_item m of
                   Inl e \<Rightarrow> Inl e
                 | Inr x \<Rightarrow>
                     (case subscript x (str ''threatType'') of
                        Inl e \<Rightarrow> Inl e
                      | Inr t \<Rightarrow> Inr (Unsafe t)))
           else Inr Safe))"
| "threat_match (PList xs) =
     (if PStr (str ''matches'') \<in> set xs then Inl TypeError else Inr Safe)"
| "threat_match (PStr s) =
     (if str_in (str ''matches'') s then Inl TypeError else Inr Safe)"
| "threat_match other = Inl TypeError"

text \<open>
  \<^verbatim>\<open>check_url_with_safe_browsing\<close> (main.py, lines 390 to 438). Every exception is
  caught and gives \<^verbatim>\<open>None\<close>.
\<close>

definition check_url_with_safe_browsing ::
    "cyber_rakshak_ai \<Rightarrow> bool \<Rightarrow> (pystr \<Rightarrow> http_reply) \<Rightarrow> pystr \<Rightarrow> safe_browsing_result option" where
  "check_url_with_safe_browsing self requests_available post url =
     (if safe_browsing_api_key self \<noteq> [] \<and> requests_available
      then (case post url of
              PostRaises \<Rightarrow> None
            | HttpResponse status_code body \<Rightarrow>
                (if status_code = 200
                 then (case body of
                         None \<Rightarrow> None
                       | Some result \<Rightarrow>
                           (case threat_match result of
                              Inl e \<Rightarrow> None
                            | Inr r \<Rightarrow> Some r))
                 else None))
      else None)"

text \<open>What the URL check prints.\<close>

datatype url_event =
    NoUrlEntered
  | Danger pyval
  | SafeBrowsingClear
  | Warning "pystr list"
  | NoSuspiciousPatterns

text \<open>The local analysis of \<^verbatim>\<open>check_url_safety\<close> (main.py, lines 468 to 490).\<close>

definition suspicious_indicators :: "pystr list" where
  "suspicious_indicators =
    [str ''bit.ly'', str ''tinyurl.com'', str ''short.link'', str ''rb.gy'', str ''phishing'',
     str ''malware'', str ''suspicious-domain'', str ''free-download'', str ''urgent-update'',
     str ''security-alert'']"

definition local_analysis :: "pystr \<Rightarrow> url_event list" where
  "local_analysis url =
     (if list_ex (\<lambda>indicator. str_in indicator (lower url)) suspicious_indicators
      then [Warning (filter (\<lambda>indicator. str_in indicator (lower url)) suspicious_indicators)]
      else [NoSuspiciousPatterns])"

text \<open>
  \<^verbatim>\<open>check_url_safety\<close> (main.py, lines 440 to 490); \<open>url\<close> is the input after
  \<^verbatim>\<open>strip()\<close>. Only the unsafe branch returns before the local analysis.
\<close>

definition check_url_safety ::
    "cyber_rakshak_ai \<Rightarrow> bool \<Rightarrow> (pystr \<Rightarrow> http_reply) \<Rightarrow> pystr \<Rightarrow> url_event list" where
  "check_url_safety self requests_available post url =
     (if url = [] then [NoUrlEntered]
      else (case check_url_with_safe_browsing self requests_available post url of
              Some (Unsafe t) \<Rightarrow> [Danger t]
            | Some Safe \<Rightarrow> SafeBrowsingClear # local_analysis url
            | None \<Rightarrow> local_analysis url))"

text \<open>
  \<^verbatim>\<open>check_url\<close> of the Telegram bot (telegram_bot.py, lines 224 to 273): the local
  analysis is the \<^verbatim>\<open>else\<close> branch of \<^verbatim>\<open>if safe_browsing_result\<close>, has its own list of
  indicators and does not say which one matched.
\<close>

definition bot_suspicious_indicators :: "pystr list" where
  "bot_suspicious_indicators =
    [str ''bit.ly'', str ''tinyurl.com'', str ''short.link'', str ''rb.gy'', str ''phishing'',
     str ''malware'', str ''suspicious-domain'']"

definition check_url ::
    "cyber_rakshak_ai \<Rightarrow> bool \<Rightarrow> (pystr \<Rightarrow> http_reply) \<Rightarrow> pystr \<Rightarrow> url_event list" where
  "check_url self requests_available post url =
     (case check_url_with_safe_browsing self requests_available post url of
        Some (Unsafe t) \<Rightarrow> [Danger t]
      | Some Safe \<Rightarrow> [SafeBrowsingClear]
      | None \<Rightarrow>
          (if list_ex (\<lambda>indicator. str_in indicator (lower url)) bot_suspicious_indicators
           then [Warning []]
           else [NoSuspiciousPatterns]))"

subsection \<open>Sample configurations\<close>

text \<open>
  Two replies of Gemini, an incomplete verdict and a complete one, with the values
  \<^verbatim>\<open>json.loads\<close> gives for them, and an assistant with and without a client. They are the
  concrete inputs of the examples below.
\<close>

abbreviation partial_reply :: pystr where
  "partial_reply \<equiv> str ''{'' @ [0x22] @ str ''is_threat'' @ [0x22] @ str '': true}''"

abbreviation partial_verdict :: pyval where
  "partial_verdict \<equiv> PDict [(str ''is_threat'', PBool True)]"

abbreviation full_reply :: pystr where
  "full_reply \<equiv>
     str ''{'' @ [0x22] @ str ''is_threat'' @ [0x22] @ str '': true, ''
     @ [0x22] @ str ''threat_type'' @ [0x22] @ str '': '' @ [0x22] @ str ''phishing'' @ [0x22]
     @ str '', '' @ [0x22] @ str ''confidence'' @ [0x22] @ str '': 0.5, ''
     @ [0x22] @ str ''explanation'' @ [0x22] @ str '': '' @ [0x22] @ str ''x'' @ [0x22]
     @ str '', '' @ [0x22] @ str ''advice'' @ [0x22] @ str '': '' @ [0x22] @ str ''y'' @ [0x22]
     @ str ''}''"

abbreviation full_verdict :: pyval where
  "full_verdict \<equiv>
     PDict [(str ''is_threat'', PBool True), (str ''threat_type'', PStr (str ''phishing'')),
            (str ''confidence'', PFloat (1 / 2)), (str ''explanation'', PStr (str ''x'')),
            (str ''advice'', PStr (str ''y''))]"

abbreviation sample_loads :: json_parser where
  "sample_loads \<equiv>
     (\<lambda>t. if t = partial_reply then Some partial_verdict
          else if t = full_reply then Some full_verdict
          else None)"

abbreviation gemini_replying :: "pystr \<Rightarrow> cyber_rakshak_ai" where
  "gemini_replying text \<equiv>
     \<lparr>current_language = English,
      gemini_client = Some (\<lambda>n m. Reply (Some text)),
      safe_browsing_api_key = []\<rparr>"


section \<open>Properties\<close>

subsection \<open>Substring test\<close>

lemma startswith_iff: "startswith s k \<longleftrightarrow> (\<exists>q. s = k @ q)"
  by (induction s k rule: startswith.induct) auto

lemma str_in_iff: "str_in k s \<longleftrightarrow> (\<exists>p q. s = p @ k @ q)"
proof (induction s)
  case Nil
  show ?case by simp
next
  case (Cons c cs)
  note IH = Cons.IH
  show ?case
  proof
    assume "str_in k (c # cs)"
    then consider "startswith (c # cs) k" | "str_in k cs" by auto
    then show "\<exists>p q. c # cs = p @ k @ q"
    proof cases
      case 1
      then obtain q where "c # cs = k @ q" using startswith_iff by blast
      then have "c # cs = [] @ k @ q" by simp
      then show ?thesis by blast
    next
      case 2
      then obtain p q where "cs = p @ k @ q" using IH by blast
      then have "c # cs = (c # p) @ k @ q" by simp
      then show ?thesis by blast
    qed
  next
    assume "\<exists>p q. c # cs = p @ k @ q"
    then obtain p q where pq: "c # cs = p @ k @ q" by blast
    show "str_in k (c # cs)"
    proof (cases p)
      case Nil
      with pq have "startswith (c # cs) k" using startswith_iff by auto
      then show ?thesis by simp
    next
      case (Cons a p')
      with pq have "cs = p' @ k @ q" by simp
      then have "str_in k cs" using IH by blast
      then show ?thesis by simp
    qed
  qed
qed

subsection \<open>The local classifier\<close>

lemmas catalog_defs = scam_patterns_def phishing_keywords_def phishing_hindi_keywords_def
  otp_scam_keywords_def otp_scam_hindi_keywords_def job_fraud_keywords_def
  job_fraud_hindi_keywords_def fake_link_keywords_def fake_link_hindi_keywords_def

lemmas score_defs = total_matches_def total_keywords_def english_matches_def hindi_matches_def
  candidate_confidence_def lower_def lower_cp_def str_def

lemma total_matches_le: "total_matches message patterns \<le> total_keywords patterns"
  unfolding total_matches_def total_keywords_def english_matches_def hindi_matches_def
  by (simp add: add_mono)

lemma candidate_confidence_pos:
  assumes "0 < m" and "m \<le> k"
  shows "0 < candidate_confidence m k"
proof -
  from assms have "0 < k" by simp
  with assms have "(0::rat) < of_nat m / of_nat k * 2" by simp
  then show ?thesis by (simp add: candidate_confidence_def)
qed

lemma candidate_confidence_range:
  "0 \<le> candidate_confidence m k \<and> candidate_confidence m k \<le> 1"
  by (simp add: candidate_confidence_def)

lemma threats_found_eq:
  "threats_found message ps =
     map (\<lambda>e. (fst e, candidate_confidence (total_matches message (snd e)) (total_keywords (snd e)),
                total_matches message (snd e)))
       (filter (\<lambda>e. 0 < total_matches message (snd e)) ps)"
  by (induction message ps rule: threats_found.induct) simp_all

lemma threats_found_member:
  assumes "x \<in> set (threats_found message ps)"
  shows "\<exists>patterns. (fst x, patterns) \<in> set ps \<and> 0 < total_matches message patterns
           \<and> snd (snd x) = total_matches message patterns
           \<and> fst (snd x) = candidate_confidence (total_matches message patterns) (total_keywords patterns)"
proof -
  from assms obtain e where e: "e \<in> set ps" "0 < total_matches message (snd e)"
    and x: "x = (fst e, candidate_confidence (total_matches message (snd e)) (total_keywords (snd e)),
                 total_matches message (snd e))"
    unfolding threats_found_eq by auto
  have "(fst x, snd e) \<in> set ps" using e x by simp
  then show ?thesis using e x by (intro exI [of _ "snd e"]) simp
qed

lemma py_max_split:
  "\<exists>before after. best # xs = before @ py_max best xs # after
     \<and> (\<forall>x\<in>set before. fst (snd x) < fst (snd (py_max best xs)))
     \<and> (\<forall>x\<in>set after. fst (snd x) \<le> fst (snd (py_max best xs)))"
proof (induction xs arbitrary: best)
  case Nil
  have "[best] = [] @ py_max best [] # []" by simp
  then show ?case by fastforce
next
  case (Cons x xs)
  show ?case
  proof (cases "fst (snd x) > fst (snd best)")
    case True
    then have eq: "py_max best (x # xs) = py_max x xs" by simp
    from Cons.IH [of x] obtain before after where
      s: "x # xs = before @ py_max x xs # after"
      and b: "\<forall>y\<in>set before. fst (snd y) < fst (snd (py_max x xs))"
      and a: "\<forall>y\<in>set after. fst (snd y) \<le> fst (snd (py_max x xs))" by blast
    have ge: "fst (snd x) \<le> fst (snd (py_max x xs))"
    proof (cases before)
      case Nil
      with s have "x # xs = py_max x xs # after" by (simp only: append_Nil)
      then have "py_max x xs = x" by (metis list.inject)
      then show ?thesis by simp
    next
      case (Cons y ys)
      with s have "x \<in> set before" by simp
      with b show ?thesis by fastforce
    qed
    have "best # x # xs = (best # before) @ py_max x xs # after" using s by simp
    moreover have "\<forall>y\<in>set (best # before). fst (snd y) < fst (snd (py_max x xs))"
      using b True ge by auto
    ultimately show ?thesis unfolding eq using a by blast
  next
    case False
    then have eq: "py_max best (x # xs) = py_max best xs" by simp
    from Cons.IH [of best] obtain before after where
      s: "best # xs = before @ py_max best xs # after"
      and b: "\<forall>y\<in>set before. fst (snd y) < fst (snd (py_max best xs))"
      and a: "\<forall>y\<in>set after. fst (snd y) \<le> fst (snd (py_max best xs))" by blast
    show ?thesis
    proof (cases before)
      case Nil
      with s have "best # xs = py_max best xs # after" by (simp only: append_Nil)
      then have w: "py_max best xs = best" and xs: "xs = after" by (metis list.inject)+
      have "best # x # xs = [] @ py_max best xs # (x # after)" using w xs by simp
      moreover have "\<forall>y\<in>set (x # after). fst (snd y) \<le> fst (snd (py_max best xs))"
        using a False w by auto
      ultimately show ?thesis unfolding eq by (metis empty_iff list.set(1))
    next
      case (Cons y ys)
      with s have "best # xs = y # (ys @ py_max best xs # after)" by (simp only: append_Cons)
      then have y: "y = best" and xs: "xs = ys @ py_max best xs # after" by (metis list.inject)+
      from b Cons y have lt: "fst (snd best) < fst (snd (py_max best xs))" by simp
      have "best # x # xs = (best # x # ys) @ py_max best xs # after" using xs by simp
      moreover have "\<forall>z\<in>set (best # x # ys). fst (snd z) < fst (snd (py_max best xs))"
        using b Cons y lt False by auto
      ultimately show ?thesis unfolding eq using a by blast
    qed
  qed
qed

lemma analyze_message_local_none:
  assumes "threats_found message scam_patterns = []"
  shows "analyze_message_local l message =
    \<lparr>is_threat = False, threat_type = ''none'', confidence = 0, matches = 0,
     explanation = str ''No obvious threat patterns detected.'',
     advice = str ''Message appears safe, but always remain cautious online.''\<rparr>"
  using assms by (simp add: analyze_message_local_def)

lemma analyze_message_local_some:
  assumes "threats_found message scam_patterns = first # others"
  shows "analyze_message_local l message =
    \<lparr>is_threat = True,
     threat_type = fst (py_max first others),
     confidence = fst (snd (py_max first others)),
     matches = snd (snd (py_max first others)),
     explanation = get_threat_explanation l (fst (py_max first others)),
     advice = get_threat_advice l (fst (py_max first others))\<rparr>"
  using assms by (simp add: analyze_message_local_def split: prod.splits)

lemma py_max_member: "py_max best xs \<in> set (best # xs)"
  using py_max_split [of best xs] by (metis in_set_conv_decomp)

lemma catalog_keys: "map fst scam_patterns = [''phishing'', ''otp_scam'', ''job_fraud'', ''fake_link'']"
  by (simp add: scam_patterns_def)

lemma winner_is_candidate:
  assumes "threats_found message scam_patterns = first # others"
  shows "\<exists>patterns. (fst (py_max first others), patterns) \<in> set scam_patterns
           \<and> 0 < total_matches message patterns
           \<and> snd (snd (py_max first others)) = total_matches message patterns
           \<and> fst (snd (py_max first others)) =
               candidate_confidence (total_matches message patterns) (total_keywords patterns)"
proof -
  have "py_max first others \<in> set (threats_found message scam_patterns)"
    using py_max_member [of first others] assms by simp
  then show ?thesis by (rule threats_found_member)
qed

lemma tf_otp: "threats_found (str ''otp'') scam_patterns = [(''otp_scam'', 1 / 10, 1)]"
  by (simp add: catalog_defs score_defs)

lemma tf_hi: "threats_found (str ''hi'') scam_patterns = []"
  by (simp add: catalog_defs score_defs)

lemma tf_empty: "threats_found [] scam_patterns = []"
  by (simp add: catalog_defs score_defs)

subsection \<open>Claims about the local classifier\<close>

text \<open>
  C3. Every verdict of the local classifier with \<open>is_threat\<close> false has the threat type
  \<^verbatim>\<open>none\<close> and the confidence 0, and every verdict with \<open>is_threat\<close> true has a confidence
  above 0 and a threat type other than \<^verbatim>\<open>none\<close>.
\<close>

theorem local_verdict_invariant:
  "(\<not> is_threat (analyze_message_local l message) \<longrightarrow>
      threat_type (analyze_message_local l message) = ''none''
      \<and> confidence (analyze_message_local l message) = 0)
   \<and> (is_threat (analyze_message_local l message) \<longrightarrow>
      0 < confidence (analyze_message_local l message)
      \<and> threat_type (analyze_message_local l message) \<noteq> ''none'')"
proof (cases "threats_found message scam_patterns")
  case Nil
  then show ?thesis by (simp add: analyze_message_local_none)
next
  case (Cons first others)
  from winner_is_candidate [OF Cons] obtain patterns where
    p: "(fst (py_max first others), patterns) \<in> set scam_patterns"
    and m: "0 < total_matches message patterns"
    and c: "fst (snd (py_max first others)) =
              candidate_confidence (total_matches message patterns) (total_keywords patterns)"
    by blast
  have "0 < fst (snd (py_max first others))"
    unfolding c using m total_matches_le by (rule candidate_confidence_pos)
  moreover have "fst (py_max first others) \<in> set (map fst scam_patterns)"
    using p by (metis fst_conv image_eqI set_map)
  then have "fst (py_max first others) \<noteq> ''none''"
    unfolding catalog_keys by auto
  ultimately show ?thesis by (simp add: analyze_message_local_some [OF Cons])
qed

theorem local_verdict_invariant_witness:
  "is_threat (analyze_message_local English (str ''otp''))
   \<and> 0 < confidence (analyze_message_local English (str ''otp''))
   \<and> threat_type (analyze_message_local English (str ''otp'')) \<noteq> ''none''
   \<and> \<not> is_threat (analyze_message_local Hindi (str ''hi''))
   \<and> threat_type (analyze_message_local Hindi (str ''hi'')) = ''none''
   \<and> confidence (analyze_message_local Hindi (str ''hi'')) = 0"
proof -
  have t: "is_threat (analyze_message_local English (str ''otp''))"
    by (simp add: analyze_message_local_some [OF tf_otp])
  have s: "\<not> is_threat (analyze_message_local Hindi (str ''hi''))"
    by (simp add: analyze_message_local_none [OF tf_hi])
  show ?thesis
    using t s local_verdict_invariant [of English "str ''otp''"]
      local_verdict_invariant [of Hindi "str ''hi''"]
    by blast
qed


text \<open>
  Both keyword lists are matched under either setting: a Hindi keyword makes a threat under
  the English setting, an English keyword under the Hindi one, and the Kelvin sign is read
  as \<^verbatim>\<open>k\<close> in an English keyword.
\<close>

lemma tf_hindi_pin:
  "threats_found [0x92A, 0x93F, 0x928] scam_patterns
     = [(''phishing'', 1 / 14, 1), (''otp_scam'', 1 / 10, 1)]"
  by (simp add: catalog_defs score_defs)

lemma both_lists_matched:
  "is_threat (analyze_message_local English [0x92A, 0x93F, 0x928])
   \<and> matches (analyze_message_local English [0x92A, 0x93F, 0x928]) = 1
   \<and> is_threat (analyze_message_local Hindi (str ''otp''))
   \<and> hindi_matches [0x92A, 0x93F, 0x928] otp_scam_hindi_keywords = 1
   \<and> english_matches [0x92A, 0x93F, 0x928] otp_scam_keywords = 0
   \<and> english_matches (str ''otp'') otp_scam_keywords = 1
   \<and> hindi_matches (str ''otp'') otp_scam_hindi_keywords = 0"
  by (simp add: analyze_message_local_some [OF tf_hindi_pin] analyze_message_local_some [OF tf_otp])
    (simp add: catalog_defs score_defs)

lemma kelvin_sign_example:
  "lower (str ''Clic'' @ [0x212A] @ str '' HERE'') = str ''click here''
   \<and> threats_found (str ''Clic'' @ [0x212A] @ str '' HERE'') scam_patterns
       = [(''phishing'', 1 / 14, 1)]"
  by (simp add: catalog_defs score_defs)

lemma map_of_catalog:
  assumes "(t, patterns) \<in> set scam_patterns"
  shows "map_of scam_patterns t = Some patterns"
proof -
  have "distinct (map fst scam_patterns)" unfolding catalog_keys by simp
  then show ?thesis using assms by (rule map_of_is_SomeI)
qed

lemma candidate_listed:
  assumes "e \<in> set ps" and "0 < total_matches message (snd e)"
  shows "(fst e, candidate_confidence (total_matches message (snd e)) (total_keywords (snd e)),
          total_matches message (snd e)) \<in> set (threats_found message ps)"
proof -
  from assms have "e \<in> set (filter (\<lambda>e. 0 < total_matches message (snd e)) ps)" by simp
  then show ?thesis unfolding threats_found_eq set_map by (rule imageI)
qed

lemma tf_repeated:
  "threats_found (str ''otp otp otp'') scam_patterns = [(''otp_scam'', 1 / 10, 1)]"
  by (simp add: catalog_defs score_defs)

lemma tf_three:
  "threats_found (str ''easy money pin'') scam_patterns
     = [(''phishing'', 1 / 14, 1), (''otp_scam'', 1 / 10, 1), (''job_fraud'', 2 / 19, 1)]"
  by (simp add: catalog_defs score_defs)

text \<open>
  C4. A category of the catalog is a candidate exactly when it has a positive number of
  matches: each such category is in the list of candidates, with its number of matches and
  the confidence \<open>min (total_matches / total_keywords * 2) 1\<close>, where \<open>total_keywords\<close> is
  the size of its English and Hindi keyword lists together, and the list has no other
  entry. A keyword counts once however often it occurs, so the number of matches never
  exceeds \<open>total_keywords\<close>. The verdict carries the count and the confidence of its
  category, and its confidence is in \<open>[0, 1]\<close> for every message.
\<close>

theorem candidate_confidence_formula:
  "(\<forall>e\<in>set scam_patterns. 0 < total_matches message (snd e) \<longrightarrow>
      (fst e,
       min (of_nat (total_matches message (snd e))
             / of_nat (length (fst (snd e)) + length (snd (snd e))) * 2) 1,
       total_matches message (snd e)) \<in> set (threats_found message scam_patterns))
   \<and> (\<forall>x\<in>set (threats_found message scam_patterns).
      \<exists>patterns. map_of scam_patterns (fst x) = Some patterns
        \<and> snd (snd x) = total_matches message patterns
        \<and> 0 < total_matches message patterns
        \<and> total_matches message patterns \<le> length (fst patterns) + length (snd patterns)
        \<and> fst (snd x) =
            min (of_nat (total_matches message patterns)
                  / of_nat (length (fst patterns) + length (snd patterns)) * 2) 1)
   \<and> length (threats_found message scam_patterns)
        = length (filter (\<lambda>e. 0 < total_matches message (snd e)) scam_patterns)
   \<and> (is_threat (analyze_message_local l message) \<longrightarrow>
        (\<exists>patterns. map_of scam_patterns (threat_type (analyze_message_local l message)) = Some patterns
          \<and> matches (analyze_message_local l message) = total_matches message patterns
          \<and> confidence (analyze_message_local l message) =
              min (of_nat (total_matches message patterns)
                    / of_nat (length (fst patterns) + length (snd patterns)) * 2) 1))
   \<and> 0 \<le> confidence (analyze_message_local l message)
   \<and> confidence (analyze_message_local l message) \<le> 1"
proof (intro conjI ballI impI)
  fix e assume "e \<in> set scam_patterns" and "0 < total_matches message (snd e)"
  then show "(fst e,
       min (of_nat (total_matches message (snd e))
             / of_nat (length (fst (snd e)) + length (snd (snd e))) * 2) 1,
       total_matches message (snd e)) \<in> set (threats_found message scam_patterns)"
    using candidate_listed [of e scam_patterns message]
    by (simp add: candidate_confidence_def total_keywords_def)
next
  fix x assume "x \<in> set (threats_found message scam_patterns)"
  from threats_found_member [OF this] obtain patterns where
    p: "(fst x, patterns) \<in> set scam_patterns" and m: "0 < total_matches message patterns"
    and s: "snd (snd x) = total_matches message patterns"
    and c: "fst (snd x) = candidate_confidence (total_matches message patterns) (total_keywords patterns)"
    by blast
  have "total_matches message patterns \<le> length (fst patterns) + length (snd patterns)"
    using total_matches_le [of message patterns] by (simp add: total_keywords_def)
  then show "\<exists>patterns. map_of scam_patterns (fst x) = Some patterns
        \<and> snd (snd x) = total_matches message patterns
        \<and> 0 < total_matches message patterns
        \<and> total_matches message patterns \<le> length (fst patterns) + length (snd patterns)
        \<and> fst (snd x) =
            min (of_nat (total_matches message patterns)
                  / of_nat (length (fst patterns) + length (snd patterns)) * 2) 1"
    using map_of_catalog [OF p] m s c
    by (intro exI [of _ patterns]) (simp add: candidate_confidence_def total_keywords_def)
next
  show "length (threats_found message scam_patterns)
        = length (filter (\<lambda>e. 0 < total_matches message (snd e)) scam_patterns)"
    unfolding threats_found_eq by simp
next
  assume t: "is_threat (analyze_message_local l message)"
  then obtain first others where tf: "threats_found message scam_patterns = first # others"
    by (cases "threats_found message scam_patterns") (simp_all add: analyze_message_local_none)
  from winner_is_candidate [OF tf] obtain patterns where
    p: "(fst (py_max first others), patterns) \<in> set scam_patterns"
    and s: "snd (snd (py_max first others)) = total_matches message patterns"
    and c: "fst (snd (py_max first others)) =
              candidate_confidence (total_matches message patterns) (total_keywords patterns)"
    by blast
  show "\<exists>patterns. map_of scam_patterns (threat_type (analyze_message_local l message)) = Some patterns
          \<and> matches (analyze_message_local l message) = total_matches message patterns
          \<and> confidence (analyze_message_local l message) =
              min (of_nat (total_matches message patterns)
                    / of_nat (length (fst patterns) + length (snd patterns)) * 2) 1"
    using map_of_catalog [OF p] s c
    by (intro exI [of _ patterns])
      (simp add: analyze_message_local_some [OF tf] candidate_confidence_def total_keywords_def)
next
  show "0 \<le> confidence (analyze_message_local l message)"
  proof (cases "threats_found message scam_patterns")
    case Nil
    then show ?thesis by (simp add: analyze_message_local_none)
  next
    case (Cons first others)
    from winner_is_candidate [OF Cons] candidate_confidence_range
    show ?thesis by (auto simp add: analyze_message_local_some [OF Cons])
  qed
next
  show "confidence (analyze_message_local l message) \<le> 1"
  proof (cases "threats_found message scam_patterns")
    case Nil
    then show ?thesis by (simp add: analyze_message_local_none)
  next
    case (Cons first others)
    from winner_is_candidate [OF Cons] candidate_confidence_range
    show ?thesis by (auto simp add: analyze_message_local_some [OF Cons])
  qed
qed

lemma three_matches:
  "total_matches (str ''easy money pin'') (phishing_keywords, phishing_hindi_keywords) = 1
   \<and> total_matches (str ''easy money pin'') (otp_scam_keywords, otp_scam_hindi_keywords) = 1
   \<and> total_matches (str ''easy money pin'') (job_fraud_keywords, job_fraud_hindi_keywords) = 1
   \<and> total_matches (str ''easy money pin'') (fake_link_keywords, fake_link_hindi_keywords) = 0"
  by (simp add: catalog_defs score_defs)

theorem candidate_confidence_formula_witness:
  "(''phishing'', 1 / 14, 1) \<in> set (threats_found (str ''easy money pin'') scam_patterns)
   \<and> (''otp_scam'', 1 / 10, 1) \<in> set (threats_found (str ''easy money pin'') scam_patterns)
   \<and> (''job_fraud'', 2 / 19, 1) \<in> set (threats_found (str ''easy money pin'') scam_patterns)
   \<and> length (threats_found (str ''easy money pin'') scam_patterns) = 3
   \<and> is_threat (analyze_message_local English (str ''easy money pin''))
   \<and> threat_type (analyze_message_local English (str ''easy money pin'')) = ''job_fraud''
   \<and> confidence (analyze_message_local English (str ''easy money pin'')) = 2 / 19
   \<and> is_threat (analyze_message_local English (str ''otp otp otp''))
   \<and> (\<exists>patterns.
        map_of scam_patterns (threat_type (analyze_message_local English (str ''otp otp otp'')))
          = Some patterns
        \<and> matches (analyze_message_local English (str ''otp otp otp''))
            = total_matches (str ''otp otp otp'') patterns
        \<and> confidence (analyze_message_local English (str ''otp otp otp''))
            = min (of_nat (total_matches (str ''otp otp otp'') patterns)
                    / of_nat (length (fst patterns) + length (snd patterns)) * 2) 1)
   \<and> confidence (analyze_message_local English (str ''otp otp otp'')) = 1 / 10
   \<and> 0 \<le> confidence (analyze_message_local English (str ''otp otp otp''))
   \<and> confidence (analyze_message_local English (str ''otp otp otp'')) \<le> 1"
proof -
  have mem: "(''phishing'', phishing_keywords, phishing_hindi_keywords) \<in> set scam_patterns"
    "(''otp_scam'', otp_scam_keywords, otp_scam_hindi_keywords) \<in> set scam_patterns"
    "(''job_fraud'', job_fraud_keywords, job_fraud_hindi_keywords) \<in> set scam_patterns"
    by (simp_all add: scam_patterns_def)
  have len: "length phishing_keywords + length phishing_hindi_keywords = 28"
    "length otp_scam_keywords + length otp_scam_hindi_keywords = 20"
    "length job_fraud_keywords + length job_fraud_hindi_keywords = 19"
    by (simp_all add: catalog_defs)
  have flt: "length (filter (\<lambda>e. 0 < total_matches (str ''easy money pin'') (snd e)) scam_patterns) = 3"
    using three_matches by (simp add: scam_patterns_def)
  note inst = candidate_confidence_formula [of "str ''easy money pin''" English]
  have a: "(''phishing'', 1 / 14, 1) \<in> set (threats_found (str ''easy money pin'') scam_patterns)"
    using inst mem(1) three_matches len(1) by fastforce
  have b: "(''otp_scam'', 1 / 10, 1) \<in> set (threats_found (str ''easy money pin'') scam_patterns)"
    using inst mem(2) three_matches len(2) by fastforce
  have c: "(''job_fraud'', 2 / 19, 1) \<in> set (threats_found (str ''easy money pin'') scam_patterns)"
    using inst mem(3) three_matches len(3) by fastforce
  have d: "length (threats_found (str ''easy money pin'') scam_patterns) = 3"
    using inst flt by simp
  have t3: "is_threat (analyze_message_local English (str ''easy money pin''))"
    "threat_type (analyze_message_local English (str ''easy money pin'')) = ''job_fraud''"
    "confidence (analyze_message_local English (str ''easy money pin'')) = 2 / 19"
    by (simp_all add: analyze_message_local_some [OF tf_three])
  have t: "is_threat (analyze_message_local English (str ''otp otp otp''))"
    by (simp add: analyze_message_local_some [OF tf_repeated])
  have cf: "confidence (analyze_message_local English (str ''otp otp otp'')) = 1 / 10"
    by (simp add: analyze_message_local_some [OF tf_repeated])
  show ?thesis
    using a b c d t3 t cf candidate_confidence_formula [of "str ''otp otp otp''" English]
    by blast
qed

lemma candidates_in_catalog_order:
  "subseq (map fst (threats_found message ps)) (map fst ps)"
proof -
  have "map fst (threats_found message ps)
          = map fst (filter (\<lambda>e. 0 < total_matches message (snd e)) ps)"
    unfolding threats_found_eq by (simp add: comp_def)
  then show ?thesis by (simp add: subseq_map)
qed

text \<open>
  C5. When there is a candidate, the verdict is a candidate of the highest confidence, and
  the first such one in the list of candidates: every candidate before it has a strictly
  lower confidence, every candidate after it has no higher one. The candidates are listed
  in the order of the catalog: phishing, otp_scam, job_fraud, fake_link. The classifier is
  a function of the message, so the choice is the same on every run.
\<close>

theorem highest_confidence_first_wins:
  assumes "threats_found message scam_patterns \<noteq> []"
  shows "(\<exists>before after.
            threats_found message scam_patterns
              = before @ (threat_type (analyze_message_local l message),
                          confidence (analyze_message_local l message),
                          matches (analyze_message_local l message)) # after
            \<and> (\<forall>x\<in>set before. fst (snd x) < confidence (analyze_message_local l message))
            \<and> (\<forall>x\<in>set after. fst (snd x) \<le> confidence (analyze_message_local l message)))
         \<and> subseq (map fst (threats_found message scam_patterns))
              [''phishing'', ''otp_scam'', ''job_fraud'', ''fake_link'']"
proof -
  from assms obtain first others where tf: "threats_found message scam_patterns = first # others"
    by (cases "threats_found message scam_patterns") simp_all
  have v: "(threat_type (analyze_message_local l message),
            confidence (analyze_message_local l message),
            matches (analyze_message_local l message)) = py_max first others"
    by (simp add: analyze_message_local_some [OF tf])
  have "\<exists>before after.
            threats_found message scam_patterns
              = before @ (threat_type (analyze_message_local l message),
                          confidence (analyze_message_local l message),
                          matches (analyze_message_local l message)) # after
            \<and> (\<forall>x\<in>set before. fst (snd x) < confidence (analyze_message_local l message))
            \<and> (\<forall>x\<in>set after. fst (snd x) \<le> confidence (analyze_message_local l message))"
    using py_max_split [of first others] by (simp add: v [symmetric] tf)
  moreover have "subseq (map fst (threats_found message scam_patterns))
              [''phishing'', ''otp_scam'', ''job_fraud'', ''fake_link'']"
    using candidates_in_catalog_order [of message scam_patterns] unfolding catalog_keys .
  ultimately show ?thesis by blast
qed

lemma tf_tie:
  "threats_found (str ''share otp send otp confirm otp pin bit.ly tinyurl install app'') scam_patterns
     = [(''phishing'', 1 / 14, 1), (''otp_scam'', 1 / 2, 5), (''fake_link'', 1 / 2, 3)]"
  by (simp add: catalog_defs score_defs)

theorem highest_confidence_first_wins_witness:
  "threats_found (str ''share otp send otp confirm otp pin bit.ly tinyurl install app'') scam_patterns
     = [(''phishing'', 1 / 14, 1), (''otp_scam'', 1 / 2, 5), (''fake_link'', 1 / 2, 3)]
   \<and> threat_type (analyze_message_local English
        (str ''share otp send otp confirm otp pin bit.ly tinyurl install app'')) = ''otp_scam''
   \<and> (\<exists>before after.
        threats_found (str ''share otp send otp confirm otp pin bit.ly tinyurl install app'') scam_patterns
          = before @ (threat_type (analyze_message_local English
                         (str ''share otp send otp confirm otp pin bit.ly tinyurl install app'')),
                      confidence (analyze_message_local English
                         (str ''share otp send otp confirm otp pin bit.ly tinyurl install app'')),
                      matches (analyze_message_local English
                         (str ''share otp send otp confirm otp pin bit.ly tinyurl install app''))) # after
        \<and> (\<forall>x\<in>set before. fst (snd x) < confidence (analyze_message_local English
               (str ''share otp send otp confirm otp pin bit.ly tinyurl install app'')))
        \<and> (\<forall>x\<in>set after. fst (snd x) \<le> confidence (analyze_message_local English
               (str ''share otp send otp confirm otp pin bit.ly tinyurl install app''))))"
proof -
  have h: "threats_found (str ''share otp send otp confirm otp pin bit.ly tinyurl install app'')
             scam_patterns \<noteq> []"
    by (simp add: tf_tie)
  have w: "threat_type (analyze_message_local English
        (str ''share otp send otp confirm otp pin bit.ly tinyurl install app'')) = ''otp_scam''"
    by (simp add: analyze_message_local_some [OF tf_tie])
  show ?thesis
    using tf_tie w highest_confidence_first_wins [OF h, of English] by blast
qed

lemma no_keyword_no_candidate:
  assumes "\<forall>e\<in>set ps. (\<forall>k\<in>set (fst (snd e)). \<not> str_in (lower k) (lower message))
              \<and> (\<forall>k\<in>set (snd (snd e)). \<not> str_in k message)"
  shows "threats_found message ps = []"
proof -
  have "total_matches message (snd e) = 0" if "e \<in> set ps" for e
    using assms that
    by (simp add: total_matches_def english_matches_def hindi_matches_def filter_empty_conv)
  then show ?thesis unfolding threats_found_eq by (simp add: filter_empty_conv)
qed

text \<open>
  C6. The local classifier gives a verdict for every message: its only partial operation,
  the division by \<open>total_keywords\<close>, is made for a positive number of matches only, and
  then \<open>total_keywords\<close> is positive. For a message in which no English keyword occurs
  after lower-casing and no Hindi keyword occurs as it is, and for the empty message, the
  verdict is the non-threat one: \<open>is_threat\<close> false, type \<^verbatim>\<open>none\<close>, confidence 0 and the
  explanation \<^verbatim>\<open>No obvious threat patterns detected.\<close>
\<close>

theorem local_classifier_no_keywords:
  "((\<forall>e\<in>set scam_patterns.
        (\<forall>k\<in>set (fst (snd e)). \<not> str_in (lower k) (lower message))
        \<and> (\<forall>k\<in>set (snd (snd e)). \<not> str_in k message)) \<longrightarrow>
      analyze_message_local l message =
        \<lparr>is_threat = False, threat_type = ''none'', confidence = 0, matches = 0,
         explanation = str ''No obvious threat patterns detected.'',
         advice = str ''Message appears safe, but always remain cautious online.''\<rparr>)
   \<and> analyze_message_local l [] =
        \<lparr>is_threat = False, threat_type = ''none'', confidence = 0, matches = 0,
         explanation = str ''No obvious threat patterns detected.'',
         advice = str ''Message appears safe, but always remain cautious online.''\<rparr>
   \<and> (\<forall>patterns. 0 < total_matches message patterns \<longrightarrow> 0 < total_keywords patterns)"
proof (intro conjI impI allI)
  assume "\<forall>e\<in>set scam_patterns.
        (\<forall>k\<in>set (fst (snd e)). \<not> str_in (lower k) (lower message))
        \<and> (\<forall>k\<in>set (snd (snd e)). \<not> str_in k message)"
  then have "threats_found message scam_patterns = []" by (rule no_keyword_no_candidate)
  then show "analyze_message_local l message =
        \<lparr>is_threat = False, threat_type = ''none'', confidence = 0, matches = 0,
         explanation = str ''No obvious threat patterns detected.'',
         advice = str ''Message appears safe, but always remain cautious online.''\<rparr>"
    by (rule analyze_message_local_none)
next
  show "analyze_message_local l [] =
        \<lparr>is_threat = False, threat_type = ''none'', confidence = 0, matches = 0,
         explanation = str ''No obvious threat patterns detected.'',
         advice = str ''Message appears safe, but always remain cautious online.''\<rparr>"
    using tf_empty by (rule analyze_message_local_none)
next
  fix patterns assume "0 < total_matches message patterns"
  then show "0 < total_keywords patterns"
    using total_matches_le [of message patterns] by simp
qed

lemma hello_no_keyword:
  "\<forall>e\<in>set scam_patterns.
      (\<forall>k\<in>set (fst (snd e)). \<not> str_in (lower k) (lower (str ''Hello, how are you?'')))
      \<and> (\<forall>k\<in>set (snd (snd e)). \<not> str_in k (str ''Hello, how are you?''))"
  by (simp add: catalog_defs lower_def lower_cp_def str_def)

theorem local_classifier_no_keywords_witness:
  "analyze_message_local English (str ''Hello, how are you?'') =
        \<lparr>is_threat = False, threat_type = ''none'', confidence = 0, matches = 0,
         explanation = str ''No obvious threat patterns detected.'',
         advice = str ''Message appears safe, but always remain cautious online.''\<rparr>
   \<and> analyze_message_local Hindi [] =
        \<lparr>is_threat = False, threat_type = ''none'', confidence = 0, matches = 0,
         explanation = str ''No obvious threat patterns detected.'',
         advice = str ''Message appears safe, but always remain cautious online.''\<rparr>"
  using hello_no_keyword
    local_classifier_no_keywords [of "str ''Hello, how are you?''" English]
    local_classifier_no_keywords [of "[]" Hindi]
  by blast

subsection \<open>The remote adapter and the coordinator\<close>

lemma adapter_unconfigured:
  "gemini_client self = None \<Longrightarrow>
     analyze_message_with_gemini json_loads self calls message = (PNone, calls)"
  by (simp add: analyze_message_with_gemini_def)


lemma show_local_result: "show_result (FromLocal v) m = Inr (show_local v m)"
  by (simp add: show_result_def)


lemma bot_analyze_message_fallback:
  assumes "classify json_loads self calls m = (result, calls')"
    and "send_analysis_result result m = Inl e"
  shows "bot_analyze_message json_loads self calls m
    = ((FromLocal (analyze_message_local (current_language self) m),
        show_local (analyze_message_local (current_language self) m) m), calls')"
  using assms by (simp add: bot_analyze_message_def)


text \<open>
  The text of a threat can be built in the bot exactly when the dict has a string as
  \<^verbatim>\<open>threat_type\<close>, a number that can be formatted as \<^verbatim>\<open>confidence\<close>, and the keys
  \<^verbatim>\<open>explanation\<close> and \<^verbatim>\<open>advice\<close>; main.py needs a string as \<^verbatim>\<open>explanation\<close> as well.
\<close>

lemma threat_text_ok_iff:
  "threat_text d = None \<longleftrightarrow>
     (\<exists>t c x a. subscript d (str ''threat_type'') = Inr (PStr t)
        \<and> subscript d (str ''confidence'') = Inr c \<and> format_percent c = None
        \<and> subscript d (str ''explanation'') = Inr x
        \<and> subscript d (str ''advice'') = Inr a)"
proof -
  have n: "need_str v = None \<longleftrightarrow> (\<exists>s. v = PStr s)" for v by (cases v) simp_all
  show ?thesis
    by (auto simp add: threat_text_def n split: sum.splits option.splits)
qed

lemma print_threat_ok_iff:
  "print_threat d = None \<longleftrightarrow>
     (\<exists>t c x a. subscript d (str ''threat_type'') = Inr (PStr t)
        \<and> subscript d (str ''confidence'') = Inr c \<and> format_percent c = None
        \<and> subscript d (str ''explanation'') = Inr (PStr x)
        \<and> subscript d (str ''advice'') = Inr a)"
proof -
  have n: "need_str v = None \<longleftrightarrow> (\<exists>s. v = PStr s)" for v by (cases v) simp_all
  show ?thesis
    by (auto simp add: print_threat_def n split: sum.splits option.splits)
qed




text \<open>
  C7, as the code has it. Without a client the adapter returns \<^verbatim>\<open>None\<close> and asks nothing.
  With a client it makes exactly one request and returns \<^verbatim>\<open>None\<close> when the request raises,
  when the response has no text or an empty one, and when the text is not JSON. A text
  that parses is returned as parsed, whatever it is: the adapter does not look at its
  shape.
\<close>

theorem gemini_adapter_outcomes:
  "(gemini_client self = None \<longrightarrow>
      analyze_message_with_gemini json_loads self calls message = (PNone, calls))
   \<and> (\<forall>g. gemini_client self = Some g \<longrightarrow>
        snd (analyze_message_with_gemini json_loads self calls message) = Suc calls
        \<and> (g calls message = Raises \<longrightarrow>
             fst (analyze_message_with_gemini json_loads self calls message) = PNone)
        \<and> (g calls message = Reply None \<longrightarrow>
             fst (analyze_message_with_gemini json_loads self calls message) = PNone)
        \<and> (g calls message = Reply (Some []) \<longrightarrow>
             fst (analyze_message_with_gemini json_loads self calls message) = PNone)
        \<and> (\<forall>text. g calls message = Reply (Some text) \<and> json_loads text = None \<longrightarrow>
             fst (analyze_message_with_gemini json_loads self calls message) = PNone)
        \<and> (\<forall>text parsed. g calls message = Reply (Some text) \<and> text \<noteq> []
               \<and> json_loads text = Some parsed \<longrightarrow>
             fst (analyze_message_with_gemini json_loads self calls message) = parsed))"
  by (auto simp add: analyze_message_with_gemini_def split: gemini_reply.splits option.splits)

theorem gemini_adapter_outcomes_witness:
  "snd (analyze_message_with_gemini
         (\<lambda>t. if t = str ''{'' @ [0x22] @ str ''is_threat'' @ [0x22] @ str '': true}''
              then Some (PDict [(str ''is_threat'', PBool True)]) else None)
         \<lparr>current_language = English,
          gemini_client = Some (\<lambda>n m. Reply (Some
            (str ''{'' @ [0x22] @ str ''is_threat'' @ [0x22] @ str '': true}''))),
          safe_browsing_api_key = []\<rparr> 0 (str ''otp'')) = Suc 0
   \<and> fst (analyze_message_with_gemini
         (\<lambda>t. if t = str ''{'' @ [0x22] @ str ''is_threat'' @ [0x22] @ str '': true}''
              then Some (PDict [(str ''is_threat'', PBool True)]) else None)
         \<lparr>current_language = English,
          gemini_client = Some (\<lambda>n m. Reply (Some
            (str ''{'' @ [0x22] @ str ''is_threat'' @ [0x22] @ str '': true}''))),
          safe_browsing_api_key = []\<rparr> 0 (str ''otp''))
       = PDict [(str ''is_threat'', PBool True)]
   \<and> analyze_message_with_gemini (\<lambda>t. None)
         \<lparr>current_language = English, gemini_client = Some (\<lambda>n m. Raises),
          safe_browsing_api_key = []\<rparr> 0 (str ''otp'') = (PNone, Suc 0)
   \<and> analyze_message_with_gemini (\<lambda>t. None)
         \<lparr>current_language = English, gemini_client = None,
          safe_browsing_api_key = []\<rparr> 0 (str ''otp'') = (PNone, 0)"
proof -
  have ne: "str ''{'' @ [0x22] @ str ''is_threat'' @ [0x22] @ str '': true}'' \<noteq> []"
    by (simp add: str_def)
  show ?thesis
    using ne
      gemini_adapter_outcomes [where self = "\<lparr>current_language = English,
          gemini_client = Some (\<lambda>n m. Reply (Some
            (str ''{'' @ [0x22] @ str ''is_threat'' @ [0x22] @ str '': true}''))),
          safe_browsing_api_key = []\<rparr>"
        and json_loads = "\<lambda>t. if t = str ''{'' @ [0x22] @ str ''is_threat'' @ [0x22] @ str '': true}''
              then Some (PDict [(str ''is_threat'', PBool True)]) else None"
        and calls = 0 and message = "str ''otp''"]
      gemini_adapter_outcomes [where self = "\<lparr>current_language = English,
          gemini_client = Some (\<lambda>n m. Raises), safe_browsing_api_key = []\<rparr>"
        and json_loads = "\<lambda>t. None" and calls = 0 and message = "str ''otp''"]
      gemini_adapter_outcomes [where self = "\<lparr>current_language = English,
          gemini_client = None, safe_browsing_api_key = []\<rparr>"
        and json_loads = "\<lambda>t. None" and calls = 0 and message = "str ''otp''"]
    by (simp add: prod_eq_iff)
qed

theorem gemini_adapter_counterexample:
  "fst (analyze_message_with_gemini
         (\<lambda>t. if t = str ''{'' @ [0x22] @ str ''is_threat'' @ [0x22] @ str '': true}''
              then Some (PDict [(str ''is_threat'', PBool True)]) else None)
         \<lparr>current_language = English,
          gemini_client = Some (\<lambda>n m. Reply (Some
            (str ''{'' @ [0x22] @ str ''is_threat'' @ [0x22] @ str '': true}''))),
          safe_browsing_api_key = []\<rparr> 0 (str ''otp''))
     = PDict [(str ''is_threat'', PBool True)]
   \<and> PDict [(str ''is_threat'', PBool True)] \<noteq> PNone
   \<and> subscript (PDict [(str ''is_threat'', PBool True)]) (str ''threat_type'') = Inl KeyError
   \<and> subscript (PDict [(str ''is_threat'', PBool True)]) (str ''confidence'') = Inl KeyError"
  by (simp add: analyze_message_with_gemini_def str_def)

subsection \<open>Escalation\<close>



lemma tf_shared_otp:
  "threats_found (str ''shared otp'') scam_patterns = [(''otp_scam'', 1 / 10, 1)]"
  by (simp add: catalog_defs score_defs)


lemma emergency_shared_otp: "emergency_check (str ''shared otp'')"
  by (simp add: emergency_check_def emergency_keywords_def lower_def lower_cp_def str_def)


lemma show_local_escalates:
  "show_local v m = ThreatDetected True \<longleftrightarrow> is_threat v \<and> emergency_check m"
  by (simp add: show_local_def)




lemma strip_blank: "strip (str ''   '') = []"
  by (simp add: strip_def is_space_def str_def)



text \<open>
  The incomplete verdict \<^verbatim>\<open>{"is_threat": true}\<close> of Gemini, for a message with a distress
  phrase: main.py raises KeyError at the first print statement and shows no escalation; the
  bot falls back to the local verdict and shows the escalation for it.
\<close>

lemma incomplete_verdict_example:
  "fst (analyze_message sample_loads (gemini_replying partial_reply) 0 (str ''shared otp''))
     = Inl KeyError
   \<and> fst (bot_analyze_message sample_loads (gemini_replying partial_reply) 0 (str ''shared otp''))
     = (FromLocal (analyze_message_local English (str ''shared otp'')), ThreatDetected True)"
proof -
  have st: "strip (str ''shared otp'') = str ''shared otp''"
    by (simp add: strip_def is_space_def str_def)
  have n: "str ''shared otp'' \<noteq> []" by (simp add: str_def)
  have c: "classify sample_loads (gemini_replying partial_reply) 0 (str ''shared otp'')
             = (FromGemini partial_verdict, Suc 0)"
    by (simp add: classify_def analyze_message_with_gemini_def str_def)
  have sh: "show_result (FromGemini partial_verdict) (str ''shared otp'') = Inl KeyError"
    by (simp add: show_result_def print_threat_def str_def)
  have sp: "send_analysis_result (FromGemini partial_verdict) (str ''shared otp'') = Inl KeyError"
    by (simp add: send_analysis_result_def threat_text_def str_def)
  have t: "is_threat (analyze_message_local English (str ''shared otp''))"
    by (simp add: analyze_message_local_some [OF tf_shared_otp])
  have m: "fst (analyze_message sample_loads (gemini_replying partial_reply) 0 (str ''shared otp''))
     = Inl KeyError"
    using n c sh by (simp add: analyze_message_def st)
  have b: "fst (bot_analyze_message sample_loads (gemini_replying partial_reply) 0 (str ''shared otp''))
     = (FromLocal (analyze_message_local English (str ''shared otp'')), ThreatDetected True)"
    using t emergency_shared_otp bot_analyze_message_fallback [OF c sp]
    by (simp add: show_local_def)
  show ?thesis using m b by simp
qed

lemma blank_line_example:
  "analyze_message json_loads self calls (str ''   '') = (Inr NoMessageEntered, calls)"
  by (simp add: analyze_message_def strip_blank)

subsection \<open>The URL check\<close>

lemma local_analysis_bitly:
  "local_analysis (str ''http://bit.ly/xyz'') = [Warning [str ''bit.ly'']]"
  by (simp add: local_analysis_def suspicious_indicators_def lower_def lower_cp_def str_def)

lemma safe_browsing_unconfigured:
  "safe_browsing_api_key self = [] \<Longrightarrow>
     check_url_with_safe_browsing self requests_available post url = None"
  by (simp add: check_url_with_safe_browsing_def)

lemma safe_browsing_responds:
  "check_url_with_safe_browsing self requests_available post url = Some r \<Longrightarrow>
     safe_browsing_api_key self \<noteq> [] \<and> requests_available
     \<and> (\<exists>body. post url = HttpResponse 200 (Some body) \<and> threat_match body = Inr r)"
  by (auto simp add: check_url_with_safe_browsing_def
      split: if_splits http_reply.splits option.splits sum.splits)

text \<open>
  The Telegram bot's \<^verbatim>\<open>check_url\<close> is the waterfall: whenever Safe Browsing gives a verdict,
  safe or unsafe, that verdict is all it reports.
\<close>

lemma bot_check_url_waterfall:
  "check_url_with_safe_browsing self requests_available post url = Some r \<Longrightarrow>
     check_url self requests_available post url
       = (case r of Unsafe t \<Rightarrow> [Danger t] | Safe \<Rightarrow> [SafeBrowsingClear])"
  by (simp add: check_url_def split: safe_browsing_result.splits)

text \<open>
  C8 fails in \<^verbatim>\<open>check_url_safety\<close> of main.py. Safe Browsing answers with status 200 and no
  match for \<^verbatim>\<open>http://bit.ly/xyz\<close>: the function reports that verdict and then runs the
  local analysis all the same, which warns about \<^verbatim>\<open>bit.ly\<close>. The bot's \<^verbatim>\<open>check_url\<close>, on
  the same input, reports the verdict of Safe Browsing only.
\<close>

theorem safe_verdict_does_not_skip_local_analysis:
  "check_url_with_safe_browsing
      \<lparr>current_language = English, gemini_client = None, safe_browsing_api_key = str ''key''\<rparr>
      True (\<lambda>u. HttpResponse 200 (Some (PDict []))) (str ''http://bit.ly/xyz'') = Some Safe
   \<and> check_url_safety
      \<lparr>current_language = English, gemini_client = None, safe_browsing_api_key = str ''key''\<rparr>
      True (\<lambda>u. HttpResponse 200 (Some (PDict []))) (str ''http://bit.ly/xyz'')
     = [SafeBrowsingClear, Warning [str ''bit.ly'']]
   \<and> check_url
      \<lparr>current_language = English, gemini_client = None, safe_browsing_api_key = str ''key''\<rparr>
      True (\<lambda>u. HttpResponse 200 (Some (PDict []))) (str ''http://bit.ly/xyz'')
     = [SafeBrowsingClear]"
proof -
  have sb: "check_url_with_safe_browsing
      \<lparr>current_language = English, gemini_client = None, safe_browsing_api_key = str ''key''\<rparr>
      True (\<lambda>u. HttpResponse 200 (Some (PDict []))) (str ''http://bit.ly/xyz'') = Some Safe"
    by (simp add: check_url_with_safe_browsing_def str_def)
  have n: "str ''http://bit.ly/xyz'' \<noteq> []" by (simp add: str_def)
  show ?thesis
    using n by (simp add: sb check_url_safety_def check_url_def local_analysis_bitly)
qed

text \<open>
  C9. When Safe Browsing gives no verdict, \<^verbatim>\<open>check_url_safety\<close> warns about a URL exactly
  when its lower-cased form contains one of the suspicious indicators, and the warning
  lists the indicators that occur in it, each of them and no other. With no API key,
  \<^verbatim>\<open>http://bit.ly/xyz\<close> is warned about, with \<^verbatim>\<open>bit.ly\<close> as the one indicator named.
\<close>

theorem local_heuristic_flags_and_reports:
  "(check_url_with_safe_browsing self requests_available post url = None \<and> url \<noteq> [] \<longrightarrow>
      check_url_safety self requests_available post url
        = (if \<exists>i\<in>set suspicious_indicators. \<exists>p q. lower url = p @ i @ q
           then [Warning (filter (\<lambda>i. \<exists>p q. lower url = p @ i @ q) suspicious_indicators)]
           else [NoSuspiciousPatterns])
      \<and> ((\<exists>reasons. Warning reasons \<in> set (check_url_safety self requests_available post url))
           \<longleftrightarrow> (\<exists>i\<in>set suspicious_indicators. \<exists>p q. lower url = p @ i @ q)))
   \<and> (safe_browsing_api_key self = [] \<longrightarrow>
        check_url_safety self requests_available post (str ''http://bit.ly/xyz'')
          = [Warning [str ''bit.ly'']])"
proof (intro conjI impI)
  assume a: "check_url_with_safe_browsing self requests_available post url = None \<and> url \<noteq> []"
  have la: "local_analysis url
        = (if \<exists>i\<in>set suspicious_indicators. \<exists>p q. lower url = p @ i @ q
           then [Warning (filter (\<lambda>i. \<exists>p q. lower url = p @ i @ q) suspicious_indicators)]
           else [NoSuspiciousPatterns])"
    by (simp add: local_analysis_def list_ex_iff str_in_iff)
  from a have eq: "check_url_safety self requests_available post url = local_analysis url"
    by (simp add: check_url_safety_def)
  show "check_url_safety self requests_available post url
        = (if \<exists>i\<in>set suspicious_indicators. \<exists>p q. lower url = p @ i @ q
           then [Warning (filter (\<lambda>i. \<exists>p q. lower url = p @ i @ q) suspicious_indicators)]
           else [NoSuspiciousPatterns])"
    unfolding eq la ..
  show "(\<exists>reasons. Warning reasons \<in> set (check_url_safety self requests_available post url))
           \<longleftrightarrow> (\<exists>i\<in>set suspicious_indicators. \<exists>p q. lower url = p @ i @ q)"
    unfolding eq la by simp
next
  assume "safe_browsing_api_key self = []"
  then have "check_url_with_safe_browsing self requests_available post (str ''http://bit.ly/xyz'') = None"
    by (rule safe_browsing_unconfigured)
  moreover have "str ''http://bit.ly/xyz'' \<noteq> []" by (simp add: str_def)
  ultimately show "check_url_safety self requests_available post (str ''http://bit.ly/xyz'')
          = [Warning [str ''bit.ly'']]"
    by (simp add: check_url_safety_def local_analysis_bitly)
qed

theorem local_heuristic_flags_and_reports_witness:
  "check_url_with_safe_browsing
      \<lparr>current_language = English, gemini_client = None, safe_browsing_api_key = str ''key''\<rparr>
      True (\<lambda>u. PostRaises) (str ''https://example.com/FREE-download'') = None
   \<and> check_url_safety
      \<lparr>current_language = English, gemini_client = None, safe_browsing_api_key = str ''key''\<rparr>
      True (\<lambda>u. PostRaises) (str ''https://example.com/FREE-download'')
     = [Warning [str ''free-download'']]
   \<and> check_url_safety
      \<lparr>current_language = English, gemini_client = None, safe_browsing_api_key = []\<rparr>
      True (\<lambda>u. PostRaises) (str ''http://bit.ly/xyz'')
     = [Warning [str ''bit.ly'']]"
proof -
  have sb: "check_url_with_safe_browsing
      \<lparr>current_language = English, gemini_client = None, safe_browsing_api_key = str ''key''\<rparr>
      True (\<lambda>u. PostRaises) (str ''https://example.com/FREE-download'') = None"
    by (simp add: check_url_with_safe_browsing_def)
  have n: "str ''https://example.com/FREE-download'' \<noteq> []" by (simp add: str_def)
  have la: "local_analysis (str ''https://example.com/FREE-download'')
              = [Warning [str ''free-download'']]"
    by (simp add: local_analysis_def suspicious_indicators_def lower_def lower_cp_def str_def)
  have ex: "\<exists>i\<in>set suspicious_indicators.
              \<exists>p q. lower (str ''https://example.com/FREE-download'') = p @ i @ q"
    using la by (auto simp add: local_analysis_def list_ex_iff str_in_iff split: if_splits)
  have f: "filter (\<lambda>i. \<exists>p q. lower (str ''https://example.com/FREE-download'') = p @ i @ q)
              suspicious_indicators = [str ''free-download'']"
    using la by (simp add: local_analysis_def list_ex_iff str_in_iff split: if_splits)
  show ?thesis
    using sb n ex f
      local_heuristic_flags_and_reports [where self = "\<lparr>current_language = English,
          gemini_client = None, safe_browsing_api_key = str ''key''\<rparr>"
        and requests_available = True and post = "\<lambda>u. PostRaises"
        and url = "str ''https://example.com/FREE-download''"]
      local_heuristic_flags_and_reports [where self = "\<lparr>current_language = English,
          gemini_client = None, safe_browsing_api_key = []\<rparr>"
        and requests_available = True and post = "\<lambda>u. PostRaises"
        and url = "str ''http://bit.ly/xyz''"]
    by simp
qed

end
